theory Spec2Isabelle
  imports Complex_Main "HOL-Library.Word"
begin

section \<open>KHO-MISS: minute averaging, emission-line columns and keograms\<close>

text \<open>
  The development follows the Python sources of the MISS spectrograph pipeline.
  Conventions used throughout:
  \<^item> a numpy \<open>float64\<close> or \<open>float32\<close> value is a \<^typ>\<open>real\<close>: arithmetic is read as
    exact. For the minute average this is what the machine computes as long as a bucket
    holds fewer than \<open>2 ^ 37\<close> frames: every partial sum of 16-bit pixels is then an
    integer below \<open>2 ^ 53\<close>, which \<open>float64\<close> holds exactly;
  \<^item> an unsigned 16-bit pixel is a \<^typ>\<open>16 word\<close>, an 8-bit pixel an \<^typ>\<open>8 word\<close>;
  \<^item> a Python exception is a value \<open>Inl e\<close> of a sum type, \<open>None\<close> is \<open>None\<close>;
  \<^item> a 2-D array is the list of its rows.
\<close>

subsection \<open>Arrays\<close>

datatype py_error =
  NameError string | ValueError | ZeroDivisionError | TypeError | OSError | FloatingPointError

type_synonym 'a array2 = "'a list list"

text \<open>\<open>a.shape\<close> of a 2-D array.\<close>

definition shape2 :: "'a array2 \<Rightarrow> nat \<times> nat" where
  "shape2 a = (length a, (case a of [] \<Rightarrow> 0 | r # _ \<Rightarrow> length r))"

text \<open>A list of rows is an \<open>h\<close> by \<open>w\<close> array when it has \<open>h\<close> rows of \<open>w\<close> entries.\<close>

definition rect :: "nat \<Rightarrow> nat \<Rightarrow> 'a array2 \<Rightarrow> bool" where
  "rect h w a = (length a = h \<and> list_all (\<lambda>r. length r = w) a)"

text \<open>\<open>np.zeros_like(img_array, dtype='float64')\<close>.\<close>

definition zeros_like :: "'a array2 \<Rightarrow> real array2" where
  "zeros_like a = map (map (\<lambda>_. 0)) a"

text \<open>
  \<open>sum_img_array += img_array\<close>: the in-place addition broadcasts the right operand to
  the shape of the left one (an axis of length 1 is repeated) and raises \<open>ValueError\<close>
  when that is impossible, leaving the left operand as it was.
\<close>

definition np_iadd :: "real array2 \<Rightarrow> 16 word array2 \<Rightarrow> py_error + real array2" where
  "np_iadd acc img =
     (let (h, w) = shape2 acc; (h', w') = shape2 img in
      if (h' = h \<or> h' = 1) \<and> (w' = w \<or> w' = 1)
      then Inr (map (\<lambda>i. map (\<lambda>j. acc ! i ! j
                  + real (unat (img ! (if h' = 1 then 0 else i) ! (if w' = 1 then 0 else j))))
                [0..<w]) [0..<h])
      else Inl ValueError)"

text \<open>
  \<open>x.astype(np.uint16)\<close> on a float: the fraction is dropped (towards zero) and the
  integer is reduced modulo \<open>2 ^ 16\<close>.
\<close>

definition trunc :: "real \<Rightarrow> int" where
  "trunc x = (if 0 \<le> x then \<lfloor>x\<rfloor> else \<lceil>x\<rceil>)"

definition astype_uint16 :: "real \<Rightarrow> 16 word" where
  "astype_uint16 x = word_of_int (trunc x)"

definition astype_uint8 :: "real \<Rightarrow> 8 word" where
  "astype_uint8 x = word_of_int (trunc x)"

subsection \<open>Minute Averaging Engine (\<open>average_images\<close>)\<close>

text \<open>
  A PNG text dictionary (\<open>img.info\<close>) keeps its insertion order; \<open>PngInfo\<close> is the list
  of text chunks in the order \<open>add_text\<close> was called.
\<close>

type_synonym metadata = "(string \<times> string) list"

text \<open>
  What \<open>Image.open(filepath)\<close> followed by \<open>np.array(img)\<close> gives for one path of a
  bucket: an exception, or the pixel array with the image's \<open>info\<close>.
\<close>

datatype raw_file = Unreadable | Readable "16 word array2" metadata

record acc_state =
  sum_img_array :: "real array2 option"
  count :: nat
  metadata :: "metadata option"

definition acc_init :: acc_state where
  "acc_init = \<lparr>sum_img_array = None, count = 0, metadata = None\<rparr>"

text \<open>
  One pass of the body of \<open>for filepath in filepaths\<close>. The \<open>try\<close> block is left at
  the first exception, so a frame that fails to open changes nothing, and a frame that
  cannot be added is not counted and gives no metadata.
\<close>

fun acc_step :: "acc_state \<Rightarrow> raw_file \<Rightarrow> acc_state" where
  "acc_step s Unreadable = s"
| "acc_step s (Readable img info) =
     (let sum0 = (case sum_img_array s of None \<Rightarrow> zeros_like img | Some a \<Rightarrow> a) in
      case np_iadd sum0 img of
        Inl e \<Rightarrow> s\<lparr>sum_img_array := Some sum0\<rparr>
      | Inr sum1 \<Rightarrow>
          \<lparr>sum_img_array = Some sum1, count = count s + 1,
           metadata = (case metadata s of None \<Rightarrow> Some info | Some m \<Rightarrow> Some m)\<rparr>)"

fun accumulate :: "acc_state \<Rightarrow> raw_file list \<Rightarrow> acc_state" where
  "accumulate s [] = s"
| "accumulate s (f # fs) = accumulate (acc_step s f) fs"

text \<open>\<open>averaged_image = (sum_img_array / count).astype(np.uint16)\<close>, under \<open>count > 0\<close>.\<close>

definition averaged_image :: "raw_file list \<Rightarrow> 16 word array2 option" where
  "averaged_image files =
     (let s = accumulate acc_init files in
      if count s > 0
      then (case sum_img_array s of
              None \<Rightarrow> None
            | Some a \<Rightarrow> Some (map (map (\<lambda>x. astype_uint16 (x / real (count s)))) a))
      else None)"

text \<open>The frames of a bucket that opened, in bucket order.\<close>

fun opened :: "raw_file list \<Rightarrow> 16 word array2 list" where
  "opened [] = []"
| "opened (Unreadable # fs) = opened fs"
| "opened (Readable img info # fs) = img # opened fs"

text \<open>
  Notions used to state the averaging property: the running value of one accumulator
  cell, the shape of the accumulator, and the sum of one pixel position over frames.
\<close>

definition acc_val :: "acc_state \<Rightarrow> nat \<Rightarrow> nat \<Rightarrow> real" where
  "acc_val s i j = (case sum_img_array s of None \<Rightarrow> 0 | Some a \<Rightarrow> a ! i ! j)"

definition acc_ok :: "nat \<Rightarrow> nat \<Rightarrow> acc_state \<Rightarrow> bool" where
  "acc_ok h w s = (case sum_img_array s of None \<Rightarrow> True | Some a \<Rightarrow> rect h w a)"

definition pixsum :: "16 word array2 list \<Rightarrow> nat \<Rightarrow> nat \<Rightarrow> real" where
  "pixsum fs i j = (\<Sum>f\<leftarrow>fs. real (unat (f ! i ! j)))"

subsection \<open>File names, dates and output paths of the averaging engine\<close>

text \<open>
  File names are 8-bit strings, in which \<open>\d\<close> matches exactly the ten ASCII digits.
\<close>

definition is_digit :: "char \<Rightarrow> bool" where
  "is_digit c = (c \<in> set ''0123456789'')"

text \<open>
  \<open>filename_regex = re.compile(r'^MISS2-(\d{8})-(\d{6})\.png$')\<close> applied with
  \<open>match\<close>; the result is \<open>match.groups()\<close>. In Python \<open>$\<close> also matches just before a
  newline that ends the string.
\<close>

definition filename_regex_match :: "string \<Rightarrow> (string \<times> string) option" where
  "filename_regex_match filename =
     (let body = (if filename \<noteq> [] \<and> last filename = CHR 0x0A then butlast filename
                  else filename) in
      if length body = 25 \<and> take 6 body = ''MISS2-''
         \<and> list_all is_digit (take 8 (drop 6 body))
         \<and> take 1 (drop 14 body) = ''-''
         \<and> list_all is_digit (take 6 (drop 15 body))
         \<and> drop 21 body = ''.png''
      then Some (take 8 (drop 6 body), take 6 (drop 15 body))
      else None)"

text \<open>\<open>int(s)\<close> on a string of decimal digits.\<close>

definition digit_val :: "char \<Rightarrow> nat" where
  "digit_val c = of_char c - 48"

definition int_of_digits :: "string \<Rightarrow> nat" where
  "int_of_digits s = foldl (\<lambda>a c. 10 * a + digit_val c) 0 s"

text \<open>\<open>str(n)\<close> and the format specification \<open>{n:0wd}\<close> for a natural number.\<close>

function str_nat :: "nat \<Rightarrow> string" where
  "str_nat n = (if n < 10 then [''0123456789'' ! n]
                else str_nat (n div 10) @ [''0123456789'' ! (n mod 10)])"
  by pat_completeness auto
termination
  by (relation "measure id") auto

definition fmt_0d :: "nat \<Rightarrow> nat \<Rightarrow> string" where
  "fmt_0d w n = replicate (w - length (str_nat n)) (CHR ''0'') @ str_nat n"

text \<open>
  Calendar checks of \<open>datetime\<close>: \<open>strptime(date_part, "%Y%m%d")\<close> on eight digits
  succeeds exactly on a date of the proleptic Gregorian calendar with a year of at
  least 1, and \<open>datetime(year, month, day, hour, minute)\<close> also needs an hour below 24
  and a minute below 60. Both raise \<open>ValueError\<close> otherwise.
\<close>

definition is_leap :: "nat \<Rightarrow> bool" where
  "is_leap y = (y mod 4 = 0 \<and> (y mod 100 \<noteq> 0 \<or> y mod 400 = 0))"

definition days_in_month :: "nat \<Rightarrow> nat \<Rightarrow> nat" where
  "days_in_month y m =
     (if m = 2 then (if is_leap y then 29 else 28)
      else if m \<in> {4, 6, 9, 11} then 30 else 31)"

definition valid_date :: "nat \<Rightarrow> nat \<Rightarrow> nat \<Rightarrow> bool" where
  "valid_date y m d = (1 \<le> y \<and> 1 \<le> m \<and> m \<le> 12 \<and> 1 \<le> d \<and> d \<le> days_in_month y m)"

definition strptime_Ymd :: "string \<Rightarrow> py_error + (nat \<times> nat \<times> nat)" where
  "strptime_Ymd s =
     (let y = int_of_digits (take 4 s); m = int_of_digits (take 2 (drop 4 s));
          d = int_of_digits (take 2 (drop 6 s)) in
      if valid_date y m d then Inr (y, m, d) else Inl ValueError)"

text \<open>
  A written averaged frame: the chain of folders (\<open>PNG_base_folder\<close>, year, month, day),
  the file name, the 16-bit image and the text chunks of its \<open>PngInfo\<close>.
\<close>

record averaged_file =
  af_folder :: "string list"
  af_name :: string
  af_image :: "16 word array2"
  af_pnginfo :: metadata

text \<open>\<open>metadata.get(key, default)\<close>.\<close>

definition dict_get :: "metadata \<Rightarrow> string \<Rightarrow> string \<Rightarrow> string" where
  "dict_get m k d = (case map_of m k of None \<Rightarrow> d | Some v \<Rightarrow> v)"

definition allow_list :: "string list" where
  "allow_list = [''Exposure Time'', ''Date/Time'', ''Temperature'', ''Binning'', ''Note'']"

text \<open>
  The \<open>PngInfo\<close> of the averaged frame. \<open>if metadata:\<close> is false for \<open>None\<close> and for
  an empty dictionary.
\<close>

definition build_pnginfo :: "metadata option \<Rightarrow> metadata" where
  "build_pnginfo md =
     (case md of
        None \<Rightarrow> [(''Note'', ''1-minute average image.'')]
      | Some m \<Rightarrow>
          if m = [] then [(''Note'', ''1-minute average image.'')]
          else filter (\<lambda>(key, value). key \<in> set allow_list) m
               @ [(''Note'', ''1-minute average image. '' @ dict_get m ''Note'' '''')])"

text \<open>
  The body of the loop over \<open>images_by_minute.items()\<close> for one minute key that is not
  yet processed: the key is cut into year, month, day, hour and minute, \<open>target_utc\<close> is
  built (which raises on an impossible time), the frames are averaged, and when at least
  one frame was counted the image is saved under the name built from the constant
  \<open>device_name = "MISS2"\<close>.
\<close>

definition device_name :: string where
  "device_name = ''MISS2''"

definition process_bucket ::
  "string \<Rightarrow> string \<Rightarrow> raw_file list \<Rightarrow> py_error + averaged_file option" where
  "process_bucket PNG_base_folder minute_key filepaths =
     (let year = int_of_digits (take 4 minute_key);
          month = int_of_digits (take 2 (drop 4 minute_key));
          day = int_of_digits (take 2 (drop 6 minute_key));
          hour = int_of_digits (take 2 (drop 9 minute_key));
          minute = int_of_digits (drop 11 minute_key) in
      if \<not> (valid_date year month day \<and> hour < 24 \<and> minute < 60) then Inl ValueError
      else
        (case averaged_image filepaths of
           None \<Rightarrow> Inr None
         | Some img \<Rightarrow>
             Inr (Some
               \<lparr>af_folder = [PNG_base_folder, fmt_0d 4 year, fmt_0d 2 month, fmt_0d 2 day],
                af_name = device_name @ ''-'' @ fmt_0d 4 year @ fmt_0d 2 month @ fmt_0d 2 day
                          @ ''-'' @ fmt_0d 2 hour @ fmt_0d 2 minute @ ''00.png'',
                af_image = img,
                af_pnginfo = build_pnginfo (metadata (accumulate acc_init filepaths))\<rparr>)))"

text \<open>
  The state of one run: the files written so far and the list \<open>processed_minutes\<close>.
  The loop over the buckets stops at the first uncaught exception; what was written
  before stays written.
\<close>

record run_state =
  written :: "averaged_file list"
  processed_minutes :: "string list"

fun process_buckets ::
  "string \<Rightarrow> (string \<times> raw_file list) list \<Rightarrow> run_state \<Rightarrow> run_state \<times> py_error option" where
  "process_buckets base [] st = (st, None)"
| "process_buckets base ((minute_key, filepaths) # rest) st =
     (if length filepaths > 0 then
        (if minute_key \<notin> set (processed_minutes st) then
           (case process_bucket base minute_key filepaths of
              Inl e \<Rightarrow> (st, Some e)
            | Inr None \<Rightarrow> process_buckets base rest st
            | Inr (Some f) \<Rightarrow>
                process_buckets base rest
                  (st\<lparr>written := written st @ [f],
                      processed_minutes := processed_minutes st @ [minute_key]\<rparr>))
         else process_buckets base rest st)
      else process_buckets base rest st)"

text \<open>
  \<open>images_by_minute[minute_key].append(filepath)\<close> on a \<open>defaultdict(list)\<close>, which
  keeps its keys in the order of their first insertion.
\<close>

fun dict_append :: "(string \<times> 'a list) list \<Rightarrow> string \<Rightarrow> 'a \<Rightarrow> (string \<times> 'a list) list" where
  "dict_append [] k v = [(k, [v])]"
| "dict_append ((k', vs) # rest) k v =
     (if k' = k then (k', vs @ [v]) # rest else (k', vs) # dict_append rest k v)"

text \<open>
  Discovery in the date-driven module: every file name of the walk is matched against
  the pattern; the date of a matching name is parsed (an impossible date raises, and
  nothing catches it), and the file joins the bucket of its minute when its date is the
  selected one. A file is given by its name and by what opening it yields.
\<close>

fun discover ::
  "nat \<times> nat \<times> nat \<Rightarrow> (string \<times> raw_file) list \<Rightarrow> (string \<times> raw_file list) list
     \<Rightarrow> py_error + (string \<times> raw_file list) list" where
  "discover selected_date_obj [] images_by_minute = Inr images_by_minute"
| "discover selected_date_obj ((filename, file) # rest) images_by_minute =
     (case filename_regex_match filename of
        None \<Rightarrow> discover selected_date_obj rest images_by_minute
      | Some (date_part, time_part) \<Rightarrow>
          (case strptime_Ymd date_part of
             Inl e \<Rightarrow> Inl e
           | Inr image_date \<Rightarrow>
               if image_date = selected_date_obj
               then discover selected_date_obj rest
                      (dict_append images_by_minute (date_part @ ''-'' @ take 4 time_part) file)
               else discover selected_date_obj rest images_by_minute))"

text \<open>\<open>average_images\<close> of the date-driven module, after the selected date is parsed.\<close>

definition average_images ::
  "string \<Rightarrow> (string \<times> raw_file) list \<Rightarrow> nat \<times> nat \<times> nat \<Rightarrow> string list
     \<Rightarrow> run_state \<times> py_error option" where
  "average_images PNG_base_folder walk selected_date_obj processed =
     (case discover selected_date_obj walk [] of
        Inl e \<Rightarrow> (\<lparr>written = [], processed_minutes = processed\<rparr>, Some e)
      | Inr images_by_minute \<Rightarrow>
          process_buckets PNG_base_folder images_by_minute
            \<lparr>written = [], processed_minutes = processed\<rparr>)"

text \<open>
  \<open>get_device_name_from_metadata\<close>: the first \<open>MISS\<close> followed by a digit in the
  \<open>Note\<close> of the file, and \<open>"MISS2"\<close> when there is none or the file does not open.
  No function of the module calls it.
\<close>

fun search_MISS_digit :: "string \<Rightarrow> string option" where
  "search_MISS_digit [] = None"
| "search_MISS_digit (c # cs) =
     (if take 4 (c # cs) = ''MISS'' \<and> list_all is_digit (take 1 (drop 4 (c # cs)))
         \<and> 5 \<le> length (c # cs)
      then Some (take 5 (c # cs)) else search_MISS_digit cs)"

definition get_device_name_from_metadata :: "raw_file \<Rightarrow> string" where
  "get_device_name_from_metadata file =
     (case file of
        Unreadable \<Rightarrow> ''MISS2''
      | Readable img info \<Rightarrow>
          (let note = dict_get info ''Note'' '''' in
           if note \<noteq> [] then
             (case search_MISS_digit note of Some d \<Rightarrow> d | None \<Rightarrow> ''MISS2'')
           else ''MISS2''))"

text \<open>
  Notions used to state the metadata property: the \<open>info\<close> of the first frame of a
  bucket that opens, and the test that a text occurs inside another.
\<close>

fun first_opened :: "raw_file list \<Rightarrow> metadata option" where
  "first_opened [] = None"
| "first_opened (Unreadable # fs) = first_opened fs"
| "first_opened (Readable img info # fs) = Some info"

fun contains_str :: "string \<Rightarrow> string \<Rightarrow> bool" where
  "contains_str sub [] = (sub = [])"
| "contains_str sub (c # cs) = (take (length sub) (c # cs) = sub \<or> contains_str sub cs)"

text \<open>A walk of the raw folder used as a running example: one minute of 1 June 2024.\<close>

definition example_walk :: "(string \<times> raw_file) list" where
  "example_walk =
     [(''MISS1-20240601-120301.png'', Readable [[7]] [(''Note'', ''MISS1'')]),
      (''MISS2-20240601-120301.png'', Readable [[1000]] [(''Note'', ''MISS1 raw''), (''dpi'', ''72'')]),
      (''notes.txt'', Unreadable),
      (''MISS2-20240601-120305.png'', Readable [[1000]] [(''Note'', ''other'')]),
      (''MISS2-20240601-120340.png'', Readable [[1000]] []),
      (''MISS2-20240601-120358.png'', Readable [[1000]] [])]"

subsection \<open>Calibration (\<open>calculate_wavelength\<close>, \<open>calculate_pixel_position\<close>)\<close>

text \<open>The coefficient lists \<open>[a_0, a_1, a_2]\<close> of \<open>parameters.py\<close>.\<close>

type_synonym coeffs = "real \<times> real \<times> real"

definition miss1_wavelength_coeffs :: coeffs where
  "miss1_wavelength_coeffs = (4217.273360, 2.565182, 0.000170)"

definition miss2_wavelength_coeffs :: coeffs where
  "miss2_wavelength_coeffs = (4088.509, 2.673936, 1.376154 / 10 ^ 4)"

definition miss1_horizon_limits :: "nat \<times> nat" where
  "miss1_horizon_limits = (280, 1140)"

definition miss2_horizon_limits :: "nat \<times> nat" where
  "miss2_horizon_limits = (271, 1116)"



text \<open>
  \<open>calculate_pixel_position\<close> of the date-driven module: one closed formula with the
  constant 2078, and no test of the radicand. \<open>np.sqrt\<close> of a negative number is a
  NaN, which fails the range test as well.
\<close>

definition calculate_pixel_position_Ask_Date ::
  "real \<Rightarrow> coeffs \<Rightarrow> int \<Rightarrow> int \<Rightarrow> real option" where
  "calculate_pixel_position_Ask_Date wavelength cs max_pixel_value binY =
     (case cs of (c0, c1, c2) \<Rightarrow>
        let radicand = c1\<^sup>2 - 4 * c0 * c2 + 4 * c2 * wavelength in
        if radicand < 0 \<or> c2 = 0 \<or> binY = 0 then None
        else
          let pixel_position = (c1 + 2078 * c2 - sqrt radicand) / (2 * c2);
              binned_pixel_position = pixel_position / real_of_int binY in
          if 0 \<le> binned_pixel_position \<and> binned_pixel_position \<le> real_of_int max_pixel_value
          then Some binned_pixel_position else None)"

subsection \<open>Library routines of numpy and scipy\<close>

text \<open>Python's \<open>round\<close> to an integer: a tie goes to the even neighbour.\<close>

definition py_round :: "real \<Rightarrow> int" where
  "py_round x =
     (let f = \<lfloor>x\<rfloor>; d = x - of_int f in
      if d < 1 / 2 then f else if 1 / 2 < d then f + 1 else if even f then f else f + 1)"

text \<open>
  \<open>scipy.ndimage.zoom(input, zoom, output=None, order=3, ...)\<close>. The routine first
  fixes the output shape, \<open>int(round(n * z))\<close> along each axis, allocates the output
  and then fills each cell by spline interpolation of the given order. The
  interpolation itself is a parameter of the model: a value for every order, input,
  output shape and output index.
\<close>

record ndimage =
  spline1 :: "nat \<Rightarrow> real list \<Rightarrow> nat \<Rightarrow> nat \<Rightarrow> real"
  spline2 :: "nat \<Rightarrow> real array2 \<Rightarrow> nat \<times> nat \<Rightarrow> nat \<times> nat \<Rightarrow> real"

definition zoom_default_order :: nat where
  "zoom_default_order = 3"

definition zoom1 :: "ndimage \<Rightarrow> real list \<Rightarrow> real \<Rightarrow> nat \<Rightarrow> real list" where
  "zoom1 nd input z order =
     (let n = nat (py_round (real (length input) * z)) in
      map (spline1 nd order input n) [0..<n])"

definition zoom2 :: "ndimage \<Rightarrow> real array2 \<Rightarrow> real \<times> real \<Rightarrow> nat \<Rightarrow> real array2" where
  "zoom2 nd input z order =
     (let (h, w) = shape2 input;
          h' = nat (py_round (real h * fst z)); w' = nat (py_round (real w * snd z)) in
      map (\<lambda>i. map (\<lambda>j. spline2 nd order input (h', w') (i, j)) [0..<w']) [0..<h'])"

text \<open>
  \<open>scipy.signal.medfilt2d\<close> with its default 3 by 3 window: the median of the nine
  neighbours of a cell, cells outside the array counting as zero.
\<close>

definition cell_or_zero :: "real array2 \<Rightarrow> int \<Rightarrow> int \<Rightarrow> real" where
  "cell_or_zero a i j =
     (if 0 \<le> i \<and> i < int (length a) \<and> 0 \<le> j \<and> j < int (length (a ! nat i))
      then a ! nat i ! nat j else 0)"

definition medfilt2d :: "real array2 \<Rightarrow> real array2" where
  "medfilt2d a =
     map (\<lambda>i. map (\<lambda>j.
            sort [cell_or_zero a (int i + di) (int j + dj). di \<leftarrow> [-1, 0, 1], dj \<leftarrow> [-1, 0, 1]] ! 4)
          [0..<length (a ! i)]) [0..<length a]"

text \<open>\<open>np.mean(rows, axis=0)\<close> of a 2-D array with at least one row.\<close>

definition mean_axis0 :: "real array2 \<Rightarrow> real list" where
  "mean_axis0 rows =
     map (\<lambda>j. (\<Sum>r\<leftarrow>rows. r ! j) / real (length rows)) [0..<snd (shape2 rows)]"

text \<open>\<open>np.clip(x, lo, hi)\<close> on one value.\<close>

definition clip :: "real \<Rightarrow> real \<Rightarrow> real \<Rightarrow> real" where
  "clip x lo hi = min (max x lo) hi"

subsection \<open>Emission-Line Extractor (\<open>process_emission_line\<close>)\<close>

text \<open>
  \<open>num_rows_to_average = max(1, int(12 / binY))\<close>. The true division of Python
  integers raises on a zero divisor; \<open>int\<close> drops the fraction.
\<close>

definition num_rows_to_average :: "int \<Rightarrow> py_error + int" where
  "num_rows_to_average binY =
     (if binY = 0 then Inl ZeroDivisionError
      else Inr (max 1 (trunc (12 / real_of_int binY))))"

text \<open>
  The row window \<open>(start_row, end_row)\<close> of the periodic module, for \<open>n\<close> the value of
  \<open>num_rows_to_average\<close> and \<open>h = spectro_array.shape[0]\<close>.
\<close>

definition row_window :: "int \<Rightarrow> int \<Rightarrow> int \<Rightarrow> int \<times> int" where
  "row_window n emission_row h =
     (max (emission_row - n div 2) 0, min h (emission_row + n div 2 + 1))"

text \<open>The row window of the date-driven module, whose start row is taken from \<open>binY\<close>.\<close>

definition row_window_Ask_Date :: "int \<Rightarrow> int \<Rightarrow> int \<Rightarrow> int \<Rightarrow> int \<times> int" where
  "row_window_Ask_Date n binY emission_row h =
     (max 0 (emission_row - binY div 2), min h (emission_row + n div 2 + 1))"

text \<open>
  \<open>a[:, lo:hi]\<close> and \<open>a[start:end, :]\<close> for bounds that are not negative, as they are
  here.
\<close>

definition crop_columns :: "real array2 \<Rightarrow> nat \<times> nat \<Rightarrow> real array2" where
  "crop_columns a pixel_range = map (\<lambda>r. take (snd pixel_range - fst pixel_range) (drop (fst pixel_range) r)) a"

definition crop_rows :: "real array2 \<Rightarrow> int \<Rightarrow> int \<Rightarrow> real array2" where
  "crop_rows a start_row end_row = take (nat end_row - nat start_row) (drop (nat start_row) a)"

text \<open>
  The tail of \<open>process_emission_line\<close> that both modules share up to the resampling
  call: crop, median filter, mean over the rows.
\<close>

definition averaged_row :: "real array2 \<Rightarrow> nat \<times> nat \<Rightarrow> int \<times> int \<Rightarrow> real list" where
  "averaged_row spectro_array pixel_range win =
     mean_axis0 (medfilt2d (crop_rows (crop_columns spectro_array pixel_range) (fst win) (snd win)))"

text \<open>
  The resampling step of the date-driven module,
  \<open>zoom(averaged_row, (300 / len(averaged_row)))\<close>: no order is passed, so the routine
  runs at its default order. An empty row makes the division raise.
\<close>

definition resample_300 :: "ndimage \<Rightarrow> real list \<Rightarrow> py_error + real list" where
  "resample_300 nd row =
     (if length row = 0 then Inl ZeroDivisionError
      else Inr (zoom1 nd row (300 / real (length row)) zoom_default_order))"

text \<open>\<open>process_emission_line\<close> of the date-driven module.\<close>

definition process_emission_line_Ask_Date ::
  "ndimage \<Rightarrow> real array2 \<Rightarrow> int \<Rightarrow> int \<Rightarrow> nat \<times> nat \<Rightarrow> py_error + real list option" where
  "process_emission_line_Ask_Date nd spectro_array emission_row binY pixel_range =
     (case num_rows_to_average binY of
        Inl e \<Rightarrow> Inl e
      | Inr n \<Rightarrow>
          let win = row_window_Ask_Date n binY emission_row (int (length spectro_array));
              available_rows = snd win - fst win in
          if available_rows < 2 then Inr None
          else (case resample_300 nd (averaged_row spectro_array pixel_range win) of
                  Inl e \<Rightarrow> Inl e
                | Inr rescaled_row \<Rightarrow> Inr (Some rescaled_row)))"

text \<open>
  The names bound at module level in the periodic module
  (\<open>RGB_Column_Maker_Past5Minutes.py\<close>): its imports, its assignments and its
  functions. Reading a global name that is not bound raises \<open>NameError\<close>.
\<close>

definition module_globals_Past5 :: "string list" where
  "module_globals_Past5 =
     [''os'', ''np'', ''signal'', ''Image'', ''datetime'', ''timezone'', ''timedelta'', ''time'',
      ''parameters'', ''spectro_path'', ''output_folder_base'', ''miss1_wavelength_coeffs'',
      ''miss2_wavelength_coeffs'', ''coeffs_sensitivity_miss1'', ''coeffs_sensitivity_miss2'',
      ''miss1_horizon_limits'', ''miss2_horizon_limits'', ''processed_images'', ''current_day'',
      ''calculate_pixel_position'', ''ensure_directory_exists'', ''verify_image_integrity'',
      ''read_png_with_metadata'', ''extract_binning_from_metadata'', ''calculate_k_lambda'',
      ''process_emission_line'', ''create_rgb_column'', ''create_rgb_columns'']"

definition load_global :: "string list \<Rightarrow> string \<Rightarrow> py_error + unit" where
  "load_global globals name = (if name \<in> set globals then Inr () else Inl (NameError name))"

text \<open>
  \<open>process_emission_line\<close> of the periodic module: the same window test with its own
  window, then the call of \<open>zoom\<close>, whose name is looked up before its argument is
  computed.
\<close>

definition process_emission_line ::
  "ndimage \<Rightarrow> real array2 \<Rightarrow> int \<Rightarrow> int \<Rightarrow> nat \<times> nat \<Rightarrow> py_error + real list option" where
  "process_emission_line nd spectro_array emission_row binY pixel_range =
     (case num_rows_to_average binY of
        Inl e \<Rightarrow> Inl e
      | Inr n \<Rightarrow>
          let win = row_window n emission_row (int (length spectro_array));
              available_rows = snd win - fst win in
          if available_rows < 2 then Inr None
          else (case load_global module_globals_Past5 ''zoom'' of
                  Inl e \<Rightarrow> Inl e
                | Inr _ \<Rightarrow>
                    (case resample_300 nd (averaged_row spectro_array pixel_range win) of
                       Inl e \<Rightarrow> Inl e
                     | Inr rescaled_row \<Rightarrow> Inr (Some rescaled_row))))"

subsection \<open>RGB Column Synthesizer (\<open>scale_channel\<close>, \<open>create_rgb_column\<close>)\<close>

text \<open>
  The division of an array by a scalar. numpy does not raise when the scalar is zero:
  it warns and fills the result with NaN or infinity. The model marks that event with
  the error value \<open>FloatingPointError\<close>, so that its absence can be stated.
\<close>

definition np_true_divide :: "real list \<Rightarrow> real \<Rightarrow> py_error + real list" where
  "np_true_divide xs d = (if d = 0 then Inl FloatingPointError else Inr (map (\<lambda>x. x / d) xs))"

text \<open>
  \<open>scale_channel\<close> of the date-driven module. \<open>np.min\<close> of an empty array raises
  \<open>ValueError\<close>. The conditional expression evaluates the division only when
  \<open>range_val != 0\<close>.
\<close>

definition scale_channel :: "real list \<Rightarrow> py_error + 8 word list" where
  "scale_channel channel_data =
     (if channel_data = [] then Inl ValueError
      else
        let min_val = Min (set channel_data);
            max_val = Max (set channel_data);
            range_val = max_val - min_val in
        if range_val \<noteq> 0 then
          (case np_true_divide (map (\<lambda>v. v - min_val) channel_data) range_val of
             Inl e \<Rightarrow> Inl e
           | Inr q \<Rightarrow> Inr (map (\<lambda>x. astype_uint8 (clip (x * 255) 0 255)) q))
        else Inr (map (\<lambda>_. 0) channel_data))"

text \<open>\<open>scale_channel\<close> of the periodic module, with its \<open>scale_factor\<close>.\<close>

definition scale_channel_Past5 :: "real list \<Rightarrow> real \<Rightarrow> py_error + 8 word list" where
  "scale_channel_Past5 channel_data scale_factor =
     (if channel_data = [] then Inl ValueError
      else
        let min_val = Min (set channel_data);
            max_val = Max (set channel_data);
            range_val = max_val - min_val in
        if range_val \<noteq> 0 then
          (case np_true_divide (map (\<lambda>v. v - min_val) channel_data) range_val of
             Inl e \<Rightarrow> Inl e
           | Inr q \<Rightarrow> Inr (map (\<lambda>x. astype_uint8 (clip (x * 255 * scale_factor) 0 255)) q))
        else Inr (map (\<lambda>_. 0) channel_data))"

text \<open>\<open>x.reshape(300, 1)\<close> raises unless \<open>x\<close> has exactly 300 entries.\<close>

definition reshape_300_1 :: "'a list \<Rightarrow> py_error + 'a array2" where
  "reshape_300_1 xs = (if length xs = 300 then Inr (map (\<lambda>x. [x]) xs) else Inl ValueError)"

text \<open>
  An RGB column is a 3-D array, rows of columns of channel values.
  \<open>np.stack((r, g, b), axis=-1)\<close> of three \<open>(300, 1)\<close> arrays.
\<close>

type_synonym rgb_array = "8 word list list list"

definition stack_rgb :: "8 word array2 \<Rightarrow> 8 word array2 \<Rightarrow> 8 word array2 \<Rightarrow> rgb_array" where
  "stack_rgb r g b = map (\<lambda>i. [[r ! i ! 0, g ! i ! 0, b ! i ! 0]]) [0..<length r]"

definition shape3 :: "'a list list list \<Rightarrow> nat list" where
  "shape3 a =
     [length a,
      (case a of [] \<Rightarrow> 0 | r # _ \<Rightarrow> length r),
      (case a of [] \<Rightarrow> 0 | r # _ \<Rightarrow> (case r of [] \<Rightarrow> 0 | p # _ \<Rightarrow> length p))]"

text \<open>Scaling and reshaping one channel, the first exception ending the computation.\<close>

definition scaled_column :: "real list \<Rightarrow> py_error + 8 word array2" where
  "scaled_column channel_data =
     (case scale_channel channel_data of Inl e \<Rightarrow> Inl e | Inr s \<Rightarrow> reshape_300_1 s)"

definition scaled_column_Past5 :: "real list \<Rightarrow> py_error + 8 word array2" where
  "scaled_column_Past5 channel_data =
     (case scale_channel_Past5 channel_data 1 of Inl e \<Rightarrow> Inl e | Inr s \<Rightarrow> reshape_300_1 s)"

text \<open>
  \<open>create_rgb_column\<close> of the date-driven module. The three extractions run first, in
  the order red, green, blue; the test for a missing sample comes after them.
\<close>

definition create_rgb_column_Ask_Date ::
  "ndimage \<Rightarrow> real array2 \<Rightarrow> int \<Rightarrow> int \<Rightarrow> int \<Rightarrow> int \<Rightarrow> nat \<times> nat
     \<Rightarrow> py_error + rgb_array option" where
  "create_rgb_column_Ask_Date nd spectro_array row_6300 row_5577 row_4278 binY pixel_range =
     (case process_emission_line_Ask_Date nd spectro_array row_6300 binY pixel_range of
        Inl e \<Rightarrow> Inl e
      | Inr column_RED \<Rightarrow>
     (case process_emission_line_Ask_Date nd spectro_array row_5577 binY pixel_range of
        Inl e \<Rightarrow> Inl e
      | Inr column_GREEN \<Rightarrow>
     (case process_emission_line_Ask_Date nd spectro_array row_4278 binY pixel_range of
        Inl e \<Rightarrow> Inl e
      | Inr column_BLUE \<Rightarrow>
     (case (column_RED, column_GREEN, column_BLUE) of
        (Some red, Some green, Some blue) \<Rightarrow>
          (case scaled_column red of Inl e \<Rightarrow> Inl e | Inr r \<Rightarrow>
          (case scaled_column green of Inl e \<Rightarrow> Inl e | Inr g \<Rightarrow>
          (case scaled_column blue of Inl e \<Rightarrow> Inl e | Inr b \<Rightarrow>
             let true_rgb_image = stack_rgb r g b in
             if shape3 true_rgb_image \<noteq> [300, 1, 3] then Inr None
             else Inr (Some true_rgb_image))))
      | _ \<Rightarrow> Inr None))))"

text \<open>
  \<open>create_rgb_column\<close> of the periodic module. Its first parameter for the
  calibration factors is spelled \<open>k_lamba_6300\<close>, so the name \<open>k_lambda_6300\<close> read in
  the body is a global one. The columns are multiplied by the factors, scaled, stacked
  and flipped upside down.
\<close>

definition create_rgb_column ::
  "ndimage \<Rightarrow> real array2 \<Rightarrow> int \<Rightarrow> int \<Rightarrow> int \<Rightarrow> int \<Rightarrow> nat \<times> nat
     \<Rightarrow> real \<Rightarrow> real \<Rightarrow> real \<Rightarrow> py_error + rgb_array option" where
  "create_rgb_column nd spectro_array row_6300 row_5577 row_4278 binY pixel_range
       k_lamba_6300 k_lambda_5577 k_lambda_4278 =
     (case process_emission_line nd spectro_array row_6300 binY pixel_range of
        Inl e \<Rightarrow> Inl e
      | Inr column_RED \<Rightarrow>
     (case process_emission_line nd spectro_array row_5577 binY pixel_range of
        Inl e \<Rightarrow> Inl e
      | Inr column_GREEN \<Rightarrow>
     (case process_emission_line nd spectro_array row_4278 binY pixel_range of
        Inl e \<Rightarrow> Inl e
      | Inr column_BLUE \<Rightarrow>
     (case (column_RED, column_GREEN, column_BLUE) of
        (Some red, Some green, Some blue) \<Rightarrow>
          (case load_global module_globals_Past5 ''k_lambda_6300'' of
             Inl e \<Rightarrow> Inl e
           | Inr _ \<Rightarrow>
          (case scaled_column_Past5 (map (\<lambda>x. x * k_lamba_6300) red) of Inl e \<Rightarrow> Inl e | Inr r \<Rightarrow>
          (case scaled_column_Past5 (map (\<lambda>x. x * k_lambda_5577) green) of Inl e \<Rightarrow> Inl e | Inr g \<Rightarrow>
          (case scaled_column_Past5 (map (\<lambda>x. x * k_lambda_4278) blue) of Inl e \<Rightarrow> Inl e | Inr b \<Rightarrow>
             let true_rgb_image_flipped = rev (stack_rgb r g b) in
             if shape3 true_rgb_image_flipped \<noteq> [300, 1, 3] then Inr None
             else Inr (Some true_rgb_image_flipped)))))
      | _ \<Rightarrow> Inr None))))"

text \<open>An interpolation routine used where a concrete one is needed for an example.\<close>

definition example_ndimage :: ndimage where
  "example_ndimage = \<lparr>spline1 = (\<lambda>order input n k. 0), spline2 = (\<lambda>order input n k. 0)\<rparr>"


subsection \<open>The per-file passes of the two RGB column makers\<close>

text \<open>
  A PNG file of the averaged-frame folder, as the passes see it: whether it was
  modified within the last five minutes (read by the periodic module only), whether
  \<open>verify_image_integrity\<close> accepts it, what \<open>Image.open\<close> with \<open>np.array\<close> and
  \<open>img.info\<close> give (nothing when they raise), and what
  \<open>extract_binning_from_metadata\<close> makes of the \<open>Binning\<close> text of its metadata
  (nothing when parsing it fails).
\<close>

record png_file =
  recent :: bool
  intact :: bool
  content :: "(16 word array2 \<times> metadata) option"
  binning :: "(int \<times> int) option"

text \<open>
  What the body of the loop does with one file: it passes on to the next file without
  output (\<open>continue\<close>), it reports a caught exception, or it saves a column under a
  name.
\<close>

datatype outcome = Skipped | Failed py_error | Saved string rgb_array




text \<open>\<open>read_png_with_metadata\<close> of the date-driven module, where \<open>zoom\<close> is imported.\<close>

definition to_float :: "16 word array2 \<Rightarrow> real array2" where
  "to_float raw = map (map (\<lambda>p. real (unat p))) raw"

definition read_png_with_metadata_Ask_Date ::
  "ndimage \<Rightarrow> png_file \<Rightarrow> int \<Rightarrow> int \<Rightarrow> py_error + (real array2 \<times> metadata)" where
  "read_png_with_metadata_Ask_Date nd f binX binY =
     (case content f of
        None \<Rightarrow> Inl OSError
      | Some (raw_data, md) \<Rightarrow>
          Inr (zoom2 nd (to_float raw_data) (real_of_int binY, real_of_int binX) 1, md))"


text \<open>The choice of the device tables from the file name.\<close>

definition device_tables_Ask_Date :: "string \<Rightarrow> ((nat \<times> nat) \<times> coeffs) option" where
  "device_tables_Ask_Date filename =
     (if contains_str ''MISS1'' filename then Some (miss1_horizon_limits, miss1_wavelength_coeffs)
      else if contains_str ''MISS2'' filename
      then Some (miss2_horizon_limits, miss2_wavelength_coeffs)
      else None)"


text \<open>
  The output name. The date-driven module uses \<open>os.path.splitext\<close> on a name that
  ends in \<open>.png\<close>: the extension is cut unless only dots precede it. The periodic
  module replaces every \<open>.png\<close> of the name.
\<close>

definition rgb_name_Ask_Date :: "string \<Rightarrow> string" where
  "rgb_name_Ask_Date filename =
     (let stem = take (length filename - 4) filename in
      if list_all (\<lambda>c. c = CHR ''.'') stem then filename @ ''_RGB.png''
      else stem @ ''_RGB.png'')"


text \<open>
  The date-driven module, from the corrected array on: the three row positions, the
  test for a missing one, rounding, the column, the save.
\<close>

definition column_from_spectro_Ask_Date ::
  "ndimage \<Rightarrow> string \<Rightarrow> real array2 \<Rightarrow> int \<Rightarrow> nat \<times> nat \<Rightarrow> coeffs \<Rightarrow> outcome" where
  "column_from_spectro_Ask_Date nd filename spectro_data binY pixel_range cs =
     (let max_pixel_value = int (length spectro_data) - 1 in
      case (calculate_pixel_position_Ask_Date 6300 cs max_pixel_value binY,
            calculate_pixel_position_Ask_Date 5577 cs max_pixel_value binY,
            calculate_pixel_position_Ask_Date 4278 cs max_pixel_value binY) of
        (Some row_6300, Some row_5577, Some row_4278) \<Rightarrow>
          (case create_rgb_column_Ask_Date nd spectro_data (py_round row_6300)
                  (py_round row_5577) (py_round row_4278) binY pixel_range of
             Inl e \<Rightarrow> Failed e
           | Inr None \<Rightarrow> Skipped
           | Inr (Some RGB_image) \<Rightarrow> Saved (rgb_name_Ask_Date filename) RGB_image)
      | _ \<Rightarrow> Skipped)"

definition rgb_column_for_file_Ask_Date :: "ndimage \<Rightarrow> string \<Rightarrow> png_file \<Rightarrow> outcome" where
  "rgb_column_for_file_Ask_Date nd filename f =
     (if \<not> intact f then Skipped
      else
        (case read_png_with_metadata_Ask_Date nd f 1 1 of
           Inl e \<Rightarrow> Failed e
         | Inr _ \<Rightarrow>
        (case binning f of
           None \<Rightarrow> Skipped
         | Some (binX, binY) \<Rightarrow>
        (case read_png_with_metadata_Ask_Date nd f binX binY of
           Inl e \<Rightarrow> Failed e
         | Inr (spectro_data, md) \<Rightarrow>
        (case device_tables_Ask_Date filename of
           None \<Rightarrow> Skipped
         | Some (pixel_range, cs) \<Rightarrow>
             column_from_spectro_Ask_Date nd filename spectro_data binY pixel_range cs)))))"



text \<open>
  The passes over a folder listing: the files whose name ends in \<open>.png\<close>, each
  handled on its own, in listing order.
\<close>

definition endswith_png :: "string \<Rightarrow> bool" where
  "endswith_png filename = (4 \<le> length filename \<and> drop (length filename - 4) filename = ''.png'')"


definition create_rgb_columns_for_date ::
  "ndimage \<Rightarrow> (string \<times> png_file) list \<Rightarrow> outcome list" where
  "create_rgb_columns_for_date nd listing =
     map (\<lambda>(filename, f). rgb_column_for_file_Ask_Date nd filename f)
       (filter (\<lambda>(filename, f). endswith_png filename) listing)"



definition example_frame :: png_file where
  "example_frame = \<lparr>recent = True, intact = True,
      content = Some (replicate 1040 (replicate 272 0), [(''Binning'', ''1x1'')]),
      binning = Some (1, 1)\<rparr>"

subsection \<open>Keogram Assembler (\<open>add_rgb_columns\<close>)\<close>

text \<open>The settings of \<open>parameters.py\<close> that the assembler reads.\<close>

definition spectrograph :: string where
  "spectrograph = ''MISS2''"

definition num_pixels_y :: nat where
  "num_pixels_y = 300"

definition num_minutes :: nat where
  "num_minutes = 24 * 60"

text \<open>
  The keogram is a 3-D array of 8-bit values: rows, minutes, channels.
  \<open>initialise_keogram\<close> fills it with 255.
\<close>

definition initialise_keogram :: rgb_array where
  "initialise_keogram = replicate num_pixels_y (replicate num_minutes [255, 255, 255])"

text \<open>
  What \<open>np.array(Image.open(file_path))\<close> gives: a 2-D array for an image of one
  channel, a 3-D array otherwise; and its \<open>shape\<close>.
\<close>

datatype ndarray8 = Gray "8 word array2" | Colour rgb_array

definition np_shape :: "ndarray8 \<Rightarrow> nat list" where
  "np_shape x = (case x of Gray a \<Rightarrow> [fst (shape2 a), snd (shape2 a)] | Colour a \<Rightarrow> shape3 a)"

text \<open>
  A file of the RGB folder: whether \<open>verify_image_integrity\<close> accepts it (the file is
  opened and verified, then opened and loaded), and what the decoding in the loop body
  yields (nothing when it raises).
\<close>

record rgb_png =
  verifies :: bool
  decoded :: "ndarray8 option"

text \<open>
  The expected file name of a minute: the device, the day as \<open>%Y%m%d\<close> gives it, the
  hour and minute of the day, and zero seconds.
\<close>

definition rgb_filename :: "string \<Rightarrow> nat \<Rightarrow> string" where
  "rgb_filename date8 minute =
     spectrograph @ ''-'' @ date8 @ ''-'' @ fmt_0d 2 (minute div 60) @ fmt_0d 2 (minute mod 60)
       @ ''00_RGB.png''"

text \<open>
  \<open>keogram[:, minute:minute+1, :] = rgb_data\<close> for \<open>rgb_data\<close> of shape
  \<open>(num_pixels_y, 1, 3)\<close>, as the shape test before it ensures. The slice has the
  keogram's rows and channels, which must agree with those of \<open>rgb_data\<close>
  (\<open>ValueError\<close> otherwise); a minute beyond the last column makes the slice empty and
  the assignment does nothing.
\<close>

definition set_column :: "rgb_array \<Rightarrow> nat \<Rightarrow> rgb_array \<Rightarrow> py_error + rgb_array" where
  "set_column keogram minute rgb_data =
     (if shape3 keogram ! 0 = shape3 rgb_data ! 0 \<and> shape3 keogram ! 2 = shape3 rgb_data ! 2
      then Inr (map (\<lambda>(row, r). row[minute := r ! 0]) (zip keogram rgb_data))
      else Inl ValueError)"

text \<open>
  The body of the loop over the minutes. A file that is absent or fails the integrity
  check, a decoding that raises, a shape other than \<open>(num_pixels_y, 1, 3)\<close> and an
  exception of the assignment all leave the keogram as it is, and the loop goes on.
\<close>

definition add_column :: "(string \<rightharpoonup> rgb_png) \<Rightarrow> string \<Rightarrow> rgb_array \<Rightarrow> nat \<Rightarrow> rgb_array" where
  "add_column dir date8 keogram minute =
     (case dir (rgb_filename date8 minute) of
        None \<Rightarrow> keogram
      | Some f \<Rightarrow>
          if \<not> verifies f then keogram
          else
            (case decoded f of
               None \<Rightarrow> keogram
             | Some rgb_data \<Rightarrow>
                 if np_shape rgb_data \<noteq> [num_pixels_y, 1, 3] then keogram
                 else
                   (case rgb_data of
                      Gray a \<Rightarrow> keogram
                    | Colour a \<Rightarrow>
                        (case set_column keogram minute a of
                           Inl e \<Rightarrow> keogram
                         | Inr k \<Rightarrow> k))))"

text \<open>
  \<open>add_rgb_columns\<close> of the date-driven module: all minutes of the day. The folder
  of the day may be missing.
\<close>

definition add_rgb_columns_Ask_Date ::
  "(string \<rightharpoonup> rgb_png) option \<Rightarrow> string \<Rightarrow> rgb_array \<Rightarrow> rgb_array" where
  "add_rgb_columns_Ask_Date today_RGB_dir date8 keogram =
     (case today_RGB_dir of
        None \<Rightarrow> keogram
      | Some dir \<Rightarrow> foldl (add_column dir date8) keogram [0..<num_minutes])"

text \<open>
  \<open>add_rgb_columns\<close> of the periodic module: the minutes that have passed since
  00:00 UTC, \<open>range(minutes_passed)\<close>.
\<close>

definition add_rgb_columns ::
  "(string \<rightharpoonup> rgb_png) option \<Rightarrow> string \<Rightarrow> rgb_array \<Rightarrow> nat \<Rightarrow> rgb_array" where
  "add_rgb_columns today_RGB_dir date8 keogram minutes_passed =
     (case today_RGB_dir of
        None \<Rightarrow> keogram
      | Some dir \<Rightarrow> foldl (add_column dir date8) keogram [0..<minutes_passed])"

text \<open>
  Notions used to state the assembly property: a column of the keogram, the shape of a
  well-formed keogram, and the column array that the file of a minute offers when the
  file exists, passes the integrity check, decodes and has the expected shape.
\<close>

definition column :: "rgb_array \<Rightarrow> nat \<Rightarrow> 8 word list list" where
  "column keogram minute = map (\<lambda>row. row ! minute) keogram"

definition keogram_ok :: "rgb_array \<Rightarrow> bool" where
  "keogram_ok keogram =
     (length keogram = num_pixels_y
      \<and> list_all (\<lambda>row. length row = num_minutes) keogram
      \<and> shape3 keogram = [num_pixels_y, num_minutes, 3])"

definition usable_column :: "(string \<rightharpoonup> rgb_png) \<Rightarrow> string \<Rightarrow> nat \<Rightarrow> rgb_array option" where
  "usable_column dir date8 minute =
     (case dir (rgb_filename date8 minute) of
        None \<Rightarrow> None
      | Some f \<Rightarrow>
          if verifies f then
            (case decoded f of
               Some (Colour a) \<Rightarrow> if shape3 a = [num_pixels_y, 1, 3] then Some a else None
             | _ \<Rightarrow> None)
          else None)"

text \<open>
  A day folder for the examples: a good column file for 00:02, a file that fails the
  integrity check for 00:03, a one-channel image for 00:04, and a good column file for
  00:05.
\<close>

definition example_column :: rgb_array where
  "example_column = replicate 300 [[10, 20, 30]]"

definition example_rgb_dir :: "string \<rightharpoonup> rgb_png" where
  "example_rgb_dir =
     [''MISS2-20240601-000200_RGB.png'' \<mapsto> \<lparr>verifies = True, decoded = Some (Colour example_column)\<rparr>,
      ''MISS2-20240601-000300_RGB.png'' \<mapsto> \<lparr>verifies = False, decoded = None\<rparr>,
      ''MISS2-20240601-000400_RGB.png'' \<mapsto> \<lparr>verifies = True, decoded = Some (Gray (replicate 300 [7]))\<rparr>,
      ''MISS2-20240601-000500_RGB.png'' \<mapsto> \<lparr>verifies = True, decoded = Some (Colour example_column)\<rparr>]"

section \<open>Properties\<close>

subsection \<open>Minute averaging: the mean of the opened frames\<close>

lemma rect_nth: "rect h w a \<Longrightarrow> i < h \<Longrightarrow> length (a ! i) = w"
  by (auto simp: rect_def list_all_length)

lemma shape2_rect: "rect h w a \<Longrightarrow> shape2 a = (h, if h = 0 then 0 else w)"
  by (cases a) (auto simp: rect_def shape2_def)

lemma rect_zeros_like: "rect h w a \<Longrightarrow> rect h w (zeros_like a)"
  by (auto simp: rect_def zeros_like_def list_all_length)

lemma zeros_like_nth: "rect h w a \<Longrightarrow> i < h \<Longrightarrow> j < w \<Longrightarrow> zeros_like a ! i ! j = 0"
  by (auto simp: rect_def zeros_like_def list_all_length)

lemma np_iadd_same_shape:
  assumes "rect h w acc" "rect h w img"
  shows "\<exists>a'. np_iadd acc img = Inr a' \<and> rect h w a' \<and>
           (\<forall>i<h. \<forall>j<w. a' ! i ! j = acc ! i ! j + real (unat (img ! i ! j)))"
proof -
  define w0 where "w0 = (if h = 0 then 0 else w)"
  have sa: "shape2 acc = (h, w0)" and si: "shape2 img = (h, w0)"
    using assms by (simp_all add: shape2_rect w0_def)
  define a' where "a' = map (\<lambda>i. map (\<lambda>j. acc ! i ! j
                  + real (unat (img ! (if h = 1 then 0 else i) ! (if w0 = 1 then 0 else j))))
                [0..<w0]) [0..<h]"
  have eq: "np_iadd acc img = Inr a'"
    by (simp add: np_iadd_def sa si a'_def)
  have r: "rect h w a'"
    by (auto simp: rect_def a'_def list_all_length w0_def)
  have v: "a' ! i ! j = acc ! i ! j + real (unat (img ! i ! j))" if "i < h" "j < w" for i j
  proof -
    from that have "h \<noteq> 0" by simp
    then have w0: "w0 = w" by (simp add: w0_def)
    show ?thesis using that by (auto simp: a'_def w0)
  qed
  from eq r v show ?thesis by blast
qed


lemma acc_step_Unreadable:
  "acc_ok h w s \<Longrightarrow> acc_ok h w (acc_step s Unreadable)"
  by simp

lemma acc_step_Readable:
  assumes ok: "acc_ok h w s" and r: "rect h w img"
  shows "acc_ok h w (acc_step s (Readable img info))"
    and "count (acc_step s (Readable img info)) = count s + 1"
    and "sum_img_array (acc_step s (Readable img info)) \<noteq> None"
    and "\<forall>i<h. \<forall>j<w. acc_val (acc_step s (Readable img info)) i j
           = acc_val s i j + real (unat (img ! i ! j))"
proof -
  define sum0 where "sum0 = (case sum_img_array s of None \<Rightarrow> zeros_like img | Some a \<Rightarrow> a)"
  have r0: "rect h w sum0"
    using ok r by (auto simp: sum0_def acc_ok_def rect_zeros_like split: option.splits)
  have v0: "sum0 ! i ! j = acc_val s i j" if "i < h" "j < w" for i j
    using that r by (auto simp: sum0_def acc_val_def zeros_like_nth split: option.splits)
  from np_iadd_same_shape [OF r0 r] obtain a' where
    eq: "np_iadd sum0 img = Inr a'" and r': "rect h w a'"
    and v': "\<forall>i<h. \<forall>j<w. a' ! i ! j = sum0 ! i ! j + real (unat (img ! i ! j))"
    by blast
  have st: "acc_step s (Readable img info) =
      \<lparr>sum_img_array = Some a', count = count s + 1,
       metadata = (case metadata s of None \<Rightarrow> Some info | Some m \<Rightarrow> Some m)\<rparr>"
    using eq by (simp add: sum0_def [symmetric])
  show "acc_ok h w (acc_step s (Readable img info))"
    unfolding st by (simp add: acc_ok_def r')
  show "count (acc_step s (Readable img info)) = count s + 1"
    unfolding st by simp
  show "sum_img_array (acc_step s (Readable img info)) \<noteq> None"
    unfolding st by simp
  show "\<forall>i<h. \<forall>j<w. acc_val (acc_step s (Readable img info)) i j
           = acc_val s i j + real (unat (img ! i ! j))"
    unfolding st using v' v0 by (simp add: acc_val_def)
qed

lemma accumulate_sums:
  assumes "acc_ok h w s" and "list_all (rect h w) (opened files)"
  shows "acc_ok h w (accumulate s files)
     \<and> count (accumulate s files) = count s + length (opened files)
     \<and> (sum_img_array s \<noteq> None \<or> opened files \<noteq> [] \<longrightarrow> sum_img_array (accumulate s files) \<noteq> None)
     \<and> (\<forall>i<h. \<forall>j<w. acc_val (accumulate s files) i j = acc_val s i j + pixsum (opened files) i j)"
  using assms
proof (induction files arbitrary: s)
  case Nil
  then show ?case by (simp add: pixsum_def)
next
  case (Cons f fs)
  show ?case
  proof (cases f)
    case Unreadable
    with Cons.IH [of s] Cons.prems show ?thesis by simp
  next
    case (Readable img info)
    with Cons.prems have r: "rect h w img" and rs: "list_all (rect h w) (opened fs)"
      by simp_all
    note step = acc_step_Readable [OF Cons.prems(1) r, of info]
    from Cons.IH [OF step(1) rs] step(2,3,4) Readable
    show ?thesis by (simp add: pixsum_def)
  qed
qed

lemma pixsum_bounds:
  "0 \<le> pixsum fs i j" "pixsum fs i j \<le> 65535 * real (length fs)"
proof -
  show "0 \<le> pixsum fs i j"
    unfolding pixsum_def by (rule sum_list_nonneg) (auto simp del: of_nat_unat)
  have "unat x < 2 ^ 16" for x :: "16 word"
    using unsigned_less [of x, where ?'a = nat] by simp
  then have "unat x \<le> 65535" for x :: "16 word"
    using less_Suc_eq_le [of "unat x" 65535] by simp
  then have b: "real (unat x) \<le> 65535" for x :: "16 word"
    using of_nat_le_iff [of "unat x" 65535, where ?'a = real] by (simp del: of_nat_unat)
  show "pixsum fs i j \<le> 65535 * real (length fs)"
    unfolding pixsum_def
  proof (induction fs)
    case Nil
    show ?case by simp
  next
    case (Cons f fs)
    from b [of "f ! i ! j"] Cons show ?case by (simp add: algebra_simps del: of_nat_unat)
  qed
qed

lemma astype_uint16_mean:
  assumes "0 \<le> s" "s \<le> 65535 * real n" "0 < n"
  shows "unat (astype_uint16 (s / real n)) = nat \<lfloor>s / real n\<rfloor>"
proof -
  have q0: "0 \<le> s / real n" using assms by simp
  have "s / real n \<le> 65535" using assms by (simp add: field_simps)
  then have "\<lfloor>s / real n\<rfloor> \<le> 65535" by (simp add: floor_le_iff)
  moreover have "0 \<le> \<lfloor>s / real n\<rfloor>" using q0 by simp
  ultimately have "unat (word_of_int \<lfloor>s / real n\<rfloor> :: 16 word) = nat \<lfloor>s / real n\<rfloor>"
    by (simp add: unat_eq_nat_uint uint_word_of_int take_bit_int_eq_self)
  with q0 show ?thesis by (simp add: astype_uint16_def trunc_def)
qed

text \<open>
  Claim C1. For a minute bucket in which at least one frame opens and all opened frames
  have the same shape \<open>h \<times> w\<close>, \<open>average_images\<close> produces an image of that shape whose
  pixel at every position \<open>(i, j)\<close> is the floor of the arithmetic mean of the opened
  frames' pixels at \<open>(i, j)\<close>; frames that fail to open count neither in the sum nor in
  the divisor, and the cast to unsigned 16 bit never wraps.
\<close>

theorem average_images_floor_mean:
  assumes some: "opened files \<noteq> []"
      and same: "list_all (rect h w) (opened files)"
  shows "\<exists>out. averaged_image files = Some out \<and> rect h w out \<and>
           (\<forall>i<h. \<forall>j<w. unat (out ! i ! j) =
               nat \<lfloor>(\<Sum>f\<leftarrow>opened files. real (unat (f ! i ! j))) / real (length (opened files))\<rfloor>)"
proof -
  define s where "s = accumulate acc_init files"
  define n where "n = length (opened files)"
  have ok0: "acc_ok h w acc_init" by (simp add: acc_ok_def acc_init_def)
  from accumulate_sums [OF ok0 same] some
  have ok: "acc_ok h w s" and c: "count s = n" and sm: "sum_img_array s \<noteq> None"
    and v: "\<forall>i<h. \<forall>j<w. acc_val s i j = pixsum (opened files) i j"
    by (simp_all add: s_def n_def acc_init_def acc_val_def)
  from sm obtain a where a: "sum_img_array s = Some a" by auto
  with ok have ra: "rect h w a" by (simp add: acc_ok_def)
  have n0: "0 < n" using some by (simp add: n_def)
  define out where "out = map (map (\<lambda>x. astype_uint16 (x / real n))) a"
  have eq: "averaged_image files = Some out"
    using a c n0 by (simp add: averaged_image_def s_def [symmetric] out_def)
  have ro: "rect h w out"
    using ra by (auto simp: out_def rect_def list_all_length)
  have "unat (out ! i ! j) = nat \<lfloor>pixsum (opened files) i j / real n\<rfloor>"
    if "i < h" "j < w" for i j
  proof -
    from that ra have "out ! i ! j = astype_uint16 (a ! i ! j / real n)"
      by (auto simp: out_def rect_def list_all_length)
    also have "a ! i ! j = pixsum (opened files) i j"
      using v that a by (simp add: acc_val_def)
    finally show ?thesis
      using astype_uint16_mean [OF pixsum_bounds(1) _ n0, of "opened files" i j]
        pixsum_bounds(2) [of "opened files" i j]
      by (simp add: n_def)
  qed
  with eq ro show ?thesis by (auto simp: pixsum_def n_def)
qed

theorem average_images_floor_mean_witness:
  "opened [Readable [[3, 4]] [], Unreadable, Readable [[4, 4]] []] \<noteq> []
   \<and> list_all (rect 1 2) (opened [Readable [[3, 4]] [], Unreadable, Readable [[4, 4]] []])
   \<and> (\<exists>out. averaged_image [Readable [[3, 4]] [], Unreadable, Readable [[4, 4]] []] = Some out
          \<and> rect 1 2 out \<and> unat (out ! 0 ! 0) = 3 \<and> unat (out ! 0 ! 1) = 4)"
proof -
  let ?F = "[Readable [[3, 4]] [], Unreadable, Readable [[4, 4 :: 16 word]] []]"
  have h1: "opened ?F \<noteq> []" by simp
  have h2: "list_all (rect 1 2) (opened ?F)" by (simp add: rect_def)
  from average_images_floor_mean [OF h1 h2] obtain out where
    o: "averaged_image ?F = Some out" "rect 1 2 out"
    and v: "\<forall>i<1. \<forall>j<2. unat (out ! i ! j) =
               nat \<lfloor>(\<Sum>f\<leftarrow>opened ?F. real (unat (f ! i ! j))) / real (length (opened ?F))\<rfloor>"
    by blast
  from v have "unat (out ! 0 ! 0) = 3" by simp
  moreover from v have "unat (out ! 0 ! 1) = 4" by simp
  ultimately show ?thesis using h1 h2 o by blast
qed

subsection \<open>Minute averaging: metadata of the written frame\<close>

lemma np_iadd_zeros_like: "\<exists>a. np_iadd (zeros_like img) img = Inr a"
proof -
  have "shape2 (zeros_like img) = shape2 img"
    by (cases img) (simp_all add: shape2_def zeros_like_def)
  then show ?thesis
    by (cases "shape2 img") (simp add: np_iadd_def)
qed

lemma acc_step_metadata_Some:
  "metadata s = Some m \<Longrightarrow> metadata (acc_step s f) = Some m"
  by (cases f) (auto simp: Let_def split: sum.splits)

lemma accumulate_metadata_Some:
  "metadata s = Some m \<Longrightarrow> metadata (accumulate s fs) = Some m"
  by (induction fs arbitrary: s) (simp_all add: acc_step_metadata_Some)

lemma accumulate_count_mono: "count s \<le> count (accumulate s fs)"
proof (induction fs arbitrary: s)
  case Nil
  show ?case by simp
next
  case (Cons f fs)
  have "count s \<le> count (acc_step s f)"
    by (cases f) (auto simp: Let_def split: sum.splits)
  with Cons [of "acc_step s f"] show ?case by simp
qed

lemma accumulate_init_metadata:
  "metadata (accumulate acc_init fs) = first_opened fs"
  "first_opened fs = None \<Longrightarrow> count (accumulate acc_init fs) = 0"
proof (induction fs)
  case Nil
  { case 1 show ?case by (simp add: acc_init_def) }
  { case 2 show ?case by (simp add: acc_init_def) }
next
  case (Cons f fs)
  { case 1
    show ?case
    proof (cases f)
      case Unreadable
      with Cons(1) show ?thesis by simp
    next
      case (Readable img info)
      obtain a where a: "np_iadd (zeros_like img) img = Inr a"
        using np_iadd_zeros_like by blast
      have "metadata (acc_step acc_init f) = Some info"
        using a Readable by (simp add: acc_init_def)
      then show ?thesis using Readable by (simp add: accumulate_metadata_Some)
    qed }
  { case 2
    then show ?case using Cons(2) by (cases f) simp_all }
qed

lemma process_bucket_SomeD:
  assumes "process_bucket base key files = Inr (Some f)"
  shows "af_pnginfo f = build_pnginfo (first_opened files)"
    and "averaged_image files \<noteq> None"
    and "take 6 (af_name f) = ''MISS2-''"
  using assms
  by (auto simp: process_bucket_def Let_def accumulate_init_metadata device_name_def
      split: if_splits option.splits)


lemma bucket_example:
  "process_bucket ''avg'' ''20240601-1203''
     [Readable [[1000]] [(''Note'', ''MISS1 raw''), (''dpi'', ''72'')],
      Readable [[1000]] [(''Note'', ''other'')],
      Readable [[1000]] [],
      Readable [[1000]] []]
   = Inr (Some \<lparr>af_folder = [''avg'', ''2024'', ''06'', ''01''],
                af_name = ''MISS2-20240601-120300.png'',
                af_image = [[1000]],
                af_pnginfo = [(''Note'', ''MISS1 raw''),
                              (''Note'', ''1-minute average image. MISS1 raw'')]\<rparr>)"
proof -
  define F where "F = [Readable [[1000 :: 16 word]] [(''Note'', ''MISS1 raw''), (''dpi'', ''72'')],
      Readable [[1000]] [(''Note'', ''other'')],
      Readable [[1000]] [],
      Readable [[1000]] []]"
  have d: "int_of_digits ''2024'' = 2024" "int_of_digits ''06'' = 6"
    "int_of_digits ''01'' = Suc 0" "int_of_digits ''12'' = 12" "int_of_digits ''03'' = 3"
    by (simp_all add: int_of_digits_def digit_val_def)
  have f: "fmt_0d 4 2024 = ''2024''" "fmt_0d 2 6 = ''06''" "fmt_0d 2 (Suc 0) = ''01''"
    "fmt_0d 2 12 = ''12''" "fmt_0d 2 3 = ''03''"
    by (simp_all add: fmt_0d_def)
  have v: "valid_date 2024 6 (Suc 0)" by (simp add: valid_date_def days_in_month_def)
  have a: "averaged_image F = Some [[1000]]"
    by (simp add: F_def averaged_image_def acc_init_def zeros_like_def np_iadd_def shape2_def
        astype_uint16_def trunc_def)
  have m: "metadata (accumulate acc_init F) = Some [(''Note'', ''MISS1 raw''), (''dpi'', ''72'')]"
    by (simp add: F_def acc_init_def zeros_like_def np_iadd_def shape2_def)
  have p: "build_pnginfo (Some [(''Note'', ''MISS1 raw''), (''dpi'', ''72'')])
      = [(''Note'', ''MISS1 raw''), (''Note'', ''1-minute average image. MISS1 raw'')]"
    by (simp add: build_pnginfo_def allow_list_def dict_get_def)
  show ?thesis
    unfolding F_def [symmetric]
    by (simp add: process_bucket_def d f v a m p device_name_def)
qed


text \<open>
  Claim C8, as the code has it. Every averaged frame that is written carries the
  allow-listed text chunks of the first frame of the bucket that opened, in their
  order, followed by one more \<open>Note\<close> chunk: the fixed text
  \<open>1-minute average image. \<close> and then the \<open>Note\<close> of that first frame (nothing when
  it has none). When the first frame has no metadata at all the only chunk is the note
  \<open>1-minute average image.\<close>. The chunks depend on the first opened frame alone: the
  number of averaged frames does not appear in them.
\<close>

theorem averaged_frame_note:
  assumes "process_bucket base key files = Inr (Some f)"
  shows "\<exists>info. first_opened files = Some info \<and>
           af_pnginfo f =
             (if info = [] then [(''Note'', ''1-minute average image.'')]
              else filter (\<lambda>(k, v). k \<in> set allow_list) info
                   @ [(''Note'', ''1-minute average image. '' @ dict_get info ''Note'' '''')])"
proof -
  from process_bucket_SomeD(1,2) [OF assms]
  have p: "af_pnginfo f = build_pnginfo (first_opened files)"
    and i: "averaged_image files \<noteq> None" by simp_all
  have "first_opened files \<noteq> None"
  proof
    assume "first_opened files = None"
    then have "count (accumulate acc_init files) = 0"
      by (rule accumulate_init_metadata(2))
    then have "averaged_image files = None" by (simp add: averaged_image_def)
    with i show False by simp
  qed
  then obtain info where "first_opened files = Some info" by auto
  with p show ?thesis by (auto simp: build_pnginfo_def)
qed

theorem averaged_frame_note_witness:
  "process_bucket ''avg'' ''20240601-1203''
     [Readable [[1000]] [(''Note'', ''MISS1 raw''), (''dpi'', ''72'')],
      Readable [[1000]] [(''Note'', ''other'')],
      Readable [[1000]] [],
      Readable [[1000]] []]
   = Inr (Some \<lparr>af_folder = [''avg'', ''2024'', ''06'', ''01''],
                af_name = ''MISS2-20240601-120300.png'',
                af_image = [[1000]],
                af_pnginfo = [(''Note'', ''MISS1 raw''),
                              (''Note'', ''1-minute average image. MISS1 raw'')]\<rparr>)
   \<and> (\<exists>info. first_opened
          [Readable [[1000]] [(''Note'', ''MISS1 raw''), (''dpi'', ''72'')],
           Readable [[1000]] [(''Note'', ''other'')],
           Readable [[1000]] [],
           Readable [[1000]] []] = Some info \<and>
        af_pnginfo \<lparr>af_folder = [''avg'', ''2024'', ''06'', ''01''],
                af_name = ''MISS2-20240601-120300.png'',
                af_image = [[1000]],
                af_pnginfo = [(''Note'', ''MISS1 raw''),
                              (''Note'', ''1-minute average image. MISS1 raw'')]\<rparr> =
             (if info = [] then [(''Note'', ''1-minute average image.'')]
              else filter (\<lambda>(k, v). k \<in> set allow_list) info
                   @ [(''Note'', ''1-minute average image. '' @ dict_get info ''Note'' '''')]))"
  by (rule conjI [OF bucket_example averaged_frame_note [OF bucket_example]])


text \<open>
  The claim as stated asks for a note that names the number of frames
  (\<open>4-frame average\<close> for four frames). Four frames of one minute give a note without
  that phrase and without any digit \<open>4\<close>.
\<close>

theorem note_has_no_frame_count:
  "\<exists>f. process_bucket ''avg'' ''20240601-1203''
     [Readable [[1000]] [(''Note'', ''MISS1 raw''), (''dpi'', ''72'')],
      Readable [[1000]] [(''Note'', ''other'')],
      Readable [[1000]] [],
      Readable [[1000]] []] = Inr (Some f)
     \<and> \<not> list_ex (\<lambda>(k, v). contains_str ''4-frame average'' v) (af_pnginfo f)
     \<and> CHR ''4'' \<notin> set (concat (map snd (af_pnginfo f)))"
  unfolding bucket_example by simp

subsection \<open>Minute averaging: only \<open>MISS2\<close> file names in, only \<open>MISS2\<close> names out\<close>

lemma regex_match_prefix:
  assumes "filename_regex_match n = Some (d, t)"
  shows "take 6 n = ''MISS2-''"
proof -
  define body where "body = (if n \<noteq> [] \<and> last n = CHR 0x0A then butlast n else n)"
  have "filename_regex_match n =
      (if length body = 25 \<and> take 6 body = ''MISS2-''
         \<and> list_all is_digit (take 8 (drop 6 body))
         \<and> take 1 (drop 14 body) = ''-''
         \<and> list_all is_digit (take 6 (drop 15 body))
         \<and> drop 21 body = ''.png''
      then Some (take 8 (drop 6 body), take 6 (drop 15 body))
      else None)"
    unfolding filename_regex_match_def body_def Let_def ..
  with assms have l: "length body = 25" and p: "take 6 body = ''MISS2-''"
    by (simp_all split: if_splits)
  have "take 6 body = take 6 n"
  proof (cases "n \<noteq> [] \<and> last n = CHR 0x0A")
    case True
    then have b: "body = butlast n" by (simp add: body_def)
    with l have "6 < length n" by simp
    then show ?thesis unfolding b by (rule take_butlast)
  next
    case False
    then have "body = n" unfolding body_def by (rule if_not_P)
    then show ?thesis by simp
  qed
  with p show ?thesis by simp
qed

lemma regex_match_MISS2:
  "take 5 n \<noteq> ''MISS2'' \<Longrightarrow> filename_regex_match n = None"
proof (rule ccontr)
  assume a: "take 5 n \<noteq> ''MISS2''" and "filename_regex_match n \<noteq> None"
  then obtain d t where "filename_regex_match n = Some (d, t)" by auto
  then have "take 6 n = ''MISS2-''" by (rule regex_match_prefix)
  then have "take 5 (take 6 n) = take 5 ''MISS2-''" by (rule arg_cong)
  then have "take 5 n = ''MISS2''" by (simp add: min_def)
  with a show False by simp
qed

lemma process_buckets_names:
  "\<forall>f\<in>set (written st). take 6 (af_name f) = ''MISS2-'' \<Longrightarrow>
   \<forall>f\<in>set (written (fst (process_buckets base bs st))). take 6 (af_name f) = ''MISS2-''"
proof (induction bs arbitrary: st)
  case Nil
  then show ?case by simp
next
  case (Cons b bs)
  obtain minute_key filepaths where b: "b = (minute_key, filepaths)" by (cases b)
  show ?case
  proof (cases "length filepaths > 0 \<and> minute_key \<notin> set (processed_minutes st)")
    case False
    then have "process_buckets base (b # bs) st = process_buckets base bs st"
      unfolding b by auto
    with Cons.IH [OF Cons.prems] show ?thesis by simp
  next
    case True
    show ?thesis
    proof (cases "process_bucket base minute_key filepaths")
      case (Inl e)
      with True have "process_buckets base (b # bs) st = (st, Some e)"
        unfolding b by simp
      with Cons.prems show ?thesis by simp
    next
      case (Inr r)
      show ?thesis
      proof (cases r)
        case None
        with Inr True have "process_buckets base (b # bs) st = process_buckets base bs st"
          unfolding b by simp
        with Cons.IH [OF Cons.prems] show ?thesis by simp
      next
        case (Some f)
        define st' where "st' = st\<lparr>written := written st @ [f],
                      processed_minutes := processed_minutes st @ [minute_key]\<rparr>"
        from Inr Some have "take 6 (af_name f) = ''MISS2-''"
          using process_bucket_SomeD(3) by simp
        with Cons.prems have p: "\<forall>f\<in>set (written st'). take 6 (af_name f) = ''MISS2-''"
          by (simp add: st'_def)
        from Inr Some True have "process_buckets base (b # bs) st = process_buckets base bs st'"
          unfolding b st'_def by simp
        with Cons.IH [OF p] show ?thesis by simp
      qed
    qed
  qed
qed

lemma discover_filter:
  "discover date (filter (\<lambda>(name, file). take 5 name = ''MISS2'') walk) acc
     = discover date walk acc"
proof (induction walk arbitrary: acc)
  case Nil
  show ?case by simp
next
  case (Cons x walk)
  obtain name fl where x: "x = (name, fl)" by (cases x)
  show ?case
  proof (cases "take 5 name = ''MISS2''")
    case True
    then have "filter (\<lambda>(name, file). take 5 name = ''MISS2'') (x # walk)
        = x # filter (\<lambda>(name, file). take 5 name = ''MISS2'') walk"
      by (simp add: x)
    then show ?thesis
      by (simp add: x Cons.IH split: option.split sum.split)
  next
    case False
    then have "filename_regex_match name = None" by (rule regex_match_MISS2)
    moreover from False have "filter (\<lambda>(name, file). take 5 name = ''MISS2'') (x # walk)
        = filter (\<lambda>(name, file). take 5 name = ''MISS2'') walk"
      by (simp add: x)
    ultimately show ?thesis by (simp add: x Cons.IH)
  qed
qed


lemma regex_examples:
  "filename_regex_match ''MISS1-20240601-120301.png'' = None"
  "filename_regex_match ''notes.txt'' = None"
  "filename_regex_match ''MISS2-20240601-120301.png'' = Some (''20240601'', ''120301'')"
  "filename_regex_match ''MISS2-20240601-120305.png'' = Some (''20240601'', ''120305'')"
  "filename_regex_match ''MISS2-20240601-120340.png'' = Some (''20240601'', ''120340'')"
  "filename_regex_match ''MISS2-20240601-120358.png'' = Some (''20240601'', ''120358'')"
  by (simp_all add: filename_regex_match_def is_digit_def)

lemma strptime_example: "strptime_Ymd ''20240601'' = Inr (2024, 6, 1)"
  by (simp add: strptime_Ymd_def int_of_digits_def digit_val_def valid_date_def
      days_in_month_def)

lemma discover_example:
  "discover (2024, 6, 1) example_walk [] =
     Inr [(''20240601-1203'',
       [Readable [[1000]] [(''Note'', ''MISS1 raw''), (''dpi'', ''72'')],
        Readable [[1000]] [(''Note'', ''other'')],
        Readable [[1000]] [],
        Readable [[1000]] []])]"
  by (simp add: example_walk_def regex_examples strptime_example)

lemma average_images_example:
  "average_images ''avg'' example_walk (2024, 6, 1) [] =
     (\<lparr>written = [\<lparr>af_folder = [''avg'', ''2024'', ''06'', ''01''],
                af_name = ''MISS2-20240601-120300.png'',
                af_image = [[1000]],
                af_pnginfo = [(''Note'', ''MISS1 raw''),
                              (''Note'', ''1-minute average image. MISS1 raw'')]\<rparr>],
       processed_minutes = [''20240601-1203'']\<rparr>, None)"
  unfolding average_images_def discover_example by (simp add: bucket_example)


text \<open>
  Claim C10. A file name that the discovery pattern accepts begins with \<open>MISS2-\<close>, and
  a name that does not begin with \<open>MISS2\<close> (a \<open>MISS1\<close> frame, say) is never accepted.
  Every file a run writes has a name that begins with \<open>MISS2-\<close>, whatever the frames'
  metadata say, and the run is the same with all other file names removed from the
  walk: such frames are never averaged.
\<close>

theorem only_MISS2_frames_averaged:
  "(filename_regex_match filename = Some (d, t) \<longrightarrow> take 6 filename = ''MISS2-'')
   \<and> (take 5 filename \<noteq> ''MISS2'' \<longrightarrow> filename_regex_match filename = None)
   \<and> (\<forall>f\<in>set (written (fst (average_images base walk date processed))).
         take 6 (af_name f) = ''MISS2-'')
   \<and> average_images base (filter (\<lambda>(name, file). take 5 name = ''MISS2'') walk) date processed
       = average_images base walk date processed"
proof (intro conjI impI)
  assume "filename_regex_match filename = Some (d, t)"
  then show "take 6 filename = ''MISS2-''" by (rule regex_match_prefix)
next
  assume "take 5 filename \<noteq> ''MISS2''"
  then show "filename_regex_match filename = None" by (rule regex_match_MISS2)
next
  show "\<forall>f\<in>set (written (fst (average_images base walk date processed))).
         take 6 (af_name f) = ''MISS2-''"
  proof (cases "discover date walk []")
    case (Inl e)
    then show ?thesis by (simp add: average_images_def)
  next
    case (Inr b)
    have "\<forall>f\<in>set (written \<lparr>written = [], processed_minutes = processed\<rparr>).
            take 6 (af_name f) = ''MISS2-''" by simp
    from process_buckets_names [OF this] Inr show ?thesis
      by (simp add: average_images_def)
  qed
next
  show "average_images base (filter (\<lambda>(name, file). take 5 name = ''MISS2'') walk) date processed
       = average_images base walk date processed"
    by (simp add: average_images_def discover_filter)
qed

theorem only_MISS2_frames_averaged_witness:
  "filename_regex_match ''MISS2-20240601-120301.png'' = Some (''20240601'', ''120301'')
   \<and> take 6 ''MISS2-20240601-120301.png'' = ''MISS2-''
   \<and> take 5 ''MISS1-20240601-120301.png'' \<noteq> ''MISS2''
   \<and> filename_regex_match ''MISS1-20240601-120301.png'' = None
   \<and> get_device_name_from_metadata
        (Readable [[1000]] [(''Note'', ''MISS1 raw''), (''dpi'', ''72'')]) = ''MISS1''
   \<and> map af_name (written (fst (average_images ''avg'' example_walk (2024, 6, 1) [])))
        = [''MISS2-20240601-120300.png'']
   \<and> list_all (\<lambda>f. take 6 (af_name f) = ''MISS2-'')
        (written (fst (average_images ''avg'' example_walk (2024, 6, 1) [])))
   \<and> average_images ''avg''
        (filter (\<lambda>(name, file). take 5 name = ''MISS2'') example_walk) (2024, 6, 1) []
       = average_images ''avg'' example_walk (2024, 6, 1) []"
proof -
  note T = only_MISS2_frames_averaged [of _ _ _ "''avg''" example_walk "(2024, 6, 1)" "[]"]
  have r: "filename_regex_match ''MISS2-20240601-120301.png'' = Some (''20240601'', ''120301'')"
    by (rule regex_examples(3))
  from T r have c1: "take 6 ''MISS2-20240601-120301.png'' = ''MISS2-''" by blast
  have n: "take 5 ''MISS1-20240601-120301.png'' \<noteq> ''MISS2''" by simp
  from T n have c2: "filename_regex_match ''MISS1-20240601-120301.png'' = None" by blast
  have g: "get_device_name_from_metadata
        (Readable [[1000]] [(''Note'', ''MISS1 raw''), (''dpi'', ''72'')]) = ''MISS1''"
    by (simp add: get_device_name_from_metadata_def dict_get_def is_digit_def)
  have w: "map af_name (written (fst (average_images ''avg'' example_walk (2024, 6, 1) [])))
        = [''MISS2-20240601-120300.png'']"
    unfolding average_images_example by simp
  from T have c3: "list_all (\<lambda>f. take 6 (af_name f) = ''MISS2-'')
        (written (fst (average_images ''avg'' example_walk (2024, 6, 1) [])))"
    unfolding list_all_iff by blast
  from T have c4: "average_images ''avg''
        (filter (\<lambda>(name, file). take 5 name = ''MISS2'') example_walk) (2024, 6, 1) []
       = average_images ''avg'' example_walk (2024, 6, 1) []" by blast
  from r c1 n c2 g w c3 c4 show ?thesis by (intro conjI)
qed

subsection \<open>Synthesizer: scaling one channel\<close>








subsection \<open>Extractor: the row window\<close>










subsection \<open>Extractor: resampling to 300 samples\<close>

lemma py_round_of_nat: "py_round (real n) = int n"
  by (simp add: py_round_def)

lemma length_zoom1_300:
  assumes "row \<noteq> []"
  shows "length (zoom1 nd row (300 / real (length row)) order) = 300"
proof -
  have "real (length row) * (300 / real (length row)) = real 300"
    using assms by simp
  then have "py_round (real (length row) * (300 / real (length row))) = int 300"
    by (simp only: py_round_of_nat)
  then show ?thesis by (simp add: zoom1_def)
qed

lemma resample_300_nonempty:
  assumes "row \<noteq> []"
  shows "resample_300 nd row = Inr (zoom1 nd row (300 / real (length row)) zoom_default_order)"
  using assms by (simp add: resample_300_def)











subsection \<open>The periodic RGB column maker: \<open>zoom\<close> is not bound\<close>









subsection \<open>Synthesizer: a column needs all three emission lines\<close>

lemma create_rgb_column_Ask_Date_Some:
  assumes "create_rgb_column_Ask_Date nd a r1 r2 r3 binY pr = Inr (Some img)"
  shows "\<exists>red green blue.
           process_emission_line_Ask_Date nd a r1 binY pr = Inr (Some red)
           \<and> process_emission_line_Ask_Date nd a r2 binY pr = Inr (Some green)
           \<and> process_emission_line_Ask_Date nd a r3 binY pr = Inr (Some blue)"
proof -
  obtain x where x: "process_emission_line_Ask_Date nd a r1 binY pr = Inr x"
    using assms by (cases "process_emission_line_Ask_Date nd a r1 binY pr")
      (simp_all add: create_rgb_column_Ask_Date_def)
  obtain y where y: "process_emission_line_Ask_Date nd a r2 binY pr = Inr y"
    using assms x by (cases "process_emission_line_Ask_Date nd a r2 binY pr")
      (simp_all add: create_rgb_column_Ask_Date_def)
  obtain z where z: "process_emission_line_Ask_Date nd a r3 binY pr = Inr z"
    using assms x y by (cases "process_emission_line_Ask_Date nd a r3 binY pr")
      (simp_all add: create_rgb_column_Ask_Date_def)
  from assms x y z have "x \<noteq> None \<and> y \<noteq> None \<and> z \<noteq> None"
    by (cases x; cases y; cases z) (simp_all add: create_rgb_column_Ask_Date_def)
  with x y z show ?thesis by auto
qed

lemma create_rgb_column_Ask_Date_None:
  assumes "process_emission_line_Ask_Date nd a r1 binY pr = Inr x"
    and "process_emission_line_Ask_Date nd a r2 binY pr = Inr y"
    and "process_emission_line_Ask_Date nd a r3 binY pr = Inr z"
    and "x = None \<or> y = None \<or> z = None"
  shows "create_rgb_column_Ask_Date nd a r1 r2 r3 binY pr = Inr None"
  using assms by (cases x; cases y; cases z) (simp_all add: create_rgb_column_Ask_Date_def)

lemma create_rgb_column_Some:
  assumes "create_rgb_column nd a r1 r2 r3 binY pr k1 k2 k3 = Inr (Some img)"
  shows "\<exists>red green blue.
           process_emission_line nd a r1 binY pr = Inr (Some red)
           \<and> process_emission_line nd a r2 binY pr = Inr (Some green)
           \<and> process_emission_line nd a r3 binY pr = Inr (Some blue)"
proof -
  obtain x where x: "process_emission_line nd a r1 binY pr = Inr x"
    using assms by (cases "process_emission_line nd a r1 binY pr")
      (simp_all add: create_rgb_column_def)
  obtain y where y: "process_emission_line nd a r2 binY pr = Inr y"
    using assms x by (cases "process_emission_line nd a r2 binY pr")
      (simp_all add: create_rgb_column_def)
  obtain z where z: "process_emission_line nd a r3 binY pr = Inr z"
    using assms x y by (cases "process_emission_line nd a r3 binY pr")
      (simp_all add: create_rgb_column_def)
  from assms x y z have "x \<noteq> None \<and> y \<noteq> None \<and> z \<noteq> None"
    by (cases x; cases y; cases z) (simp_all add: create_rgb_column_def)
  with x y z show ?thesis by auto
qed

lemma create_rgb_column_None:
  assumes "process_emission_line nd a r1 binY pr = Inr x"
    and "process_emission_line nd a r2 binY pr = Inr y"
    and "process_emission_line nd a r3 binY pr = Inr z"
    and "x = None \<or> y = None \<or> z = None"
  shows "create_rgb_column nd a r1 r2 r3 binY pr k1 k2 k3 = Inr None"
  using assms by (cases x; cases y; cases z) (simp_all add: create_rgb_column_def)

lemma column_from_spectro_Ask_Date_Saved:
  assumes "column_from_spectro_Ask_Date nd fn sd binY pr cs = Saved name img"
  shows "\<exists>p1 p2 p3.
           calculate_pixel_position_Ask_Date 6300 cs (int (length sd) - 1) binY = Some p1
           \<and> calculate_pixel_position_Ask_Date 5577 cs (int (length sd) - 1) binY = Some p2
           \<and> calculate_pixel_position_Ask_Date 4278 cs (int (length sd) - 1) binY = Some p3
           \<and> create_rgb_column_Ask_Date nd sd (py_round p1) (py_round p2) (py_round p3) binY pr
               = Inr (Some img)"
  using assms
  by (auto simp: column_from_spectro_Ask_Date_def Let_def
      split: option.splits sum.splits)

lemma column_from_spectro_Ask_Date_Skipped:
  assumes "calculate_pixel_position_Ask_Date 6300 cs (int (length sd) - 1) binY = None
           \<or> calculate_pixel_position_Ask_Date 5577 cs (int (length sd) - 1) binY = None
           \<or> calculate_pixel_position_Ask_Date 4278 cs (int (length sd) - 1) binY = None"
  shows "column_from_spectro_Ask_Date nd fn sd binY pr cs = Skipped"
  using assms
  by (auto simp: column_from_spectro_Ask_Date_def Let_def split: option.splits)

lemma rgb_column_for_file_Ask_Date_Saved:
  assumes "rgb_column_for_file_Ask_Date nd fn f = Saved name img"
  shows "\<exists>binX binY sd md pr cs.
           binning f = Some (binX, binY)
           \<and> read_png_with_metadata_Ask_Date nd f binX binY = Inr (sd, md)
           \<and> device_tables_Ask_Date fn = Some (pr, cs)
           \<and> column_from_spectro_Ask_Date nd fn sd binY pr cs = Saved name img"
proof -
  from assms have i: "intact f"
    by (simp add: rgb_column_for_file_Ask_Date_def split: if_splits)
  from assms i obtain r0 where "read_png_with_metadata_Ask_Date nd f 1 1 = Inr r0"
    by (cases "read_png_with_metadata_Ask_Date nd f 1 1")
      (simp_all add: rgb_column_for_file_Ask_Date_def)
  note s0 = i this
  from assms s0 obtain binX binY where b: "binning f = Some (binX, binY)"
    by (cases "binning f") (auto simp: rgb_column_for_file_Ask_Date_def)
  from assms s0 b obtain sd md where r: "read_png_with_metadata_Ask_Date nd f binX binY = Inr (sd, md)"
    by (cases "read_png_with_metadata_Ask_Date nd f binX binY")
      (auto simp: rgb_column_for_file_Ask_Date_def)
  from assms s0 b r obtain pr cs where d: "device_tables_Ask_Date fn = Some (pr, cs)"
    by (cases "device_tables_Ask_Date fn") (auto simp: rgb_column_for_file_Ask_Date_def)
  from assms s0 b r d have "column_from_spectro_Ask_Date nd fn sd binY pr cs = Saved name img"
    by (simp add: rgb_column_for_file_Ask_Date_def)
  with b r d show ?thesis by blast
qed

lemma py_round_lower:
  assumes "of_int k \<le> x" "x < of_int k + 1 / 2"
  shows "py_round x = k"
proof -
  from assms have "\<lfloor>x\<rfloor> = k" by (intro floor_unique) simp_all
  with assms show ?thesis by (simp add: py_round_def)
qed

lemma pixel_position_bounds:
  assumes c2: "0 < c2" and r: "0 \<le> lo" "lo\<^sup>2 < c1\<^sup>2 - 4 * c0 * c2 + 4 * c2 * w"
    "0 \<le> hi" "c1\<^sup>2 - 4 * c0 * c2 + 4 * c2 * w < hi\<^sup>2"
    and k: "of_int k * (2 * c2) \<le> c1 + 2078 * c2 - hi"
      "c1 + 2078 * c2 - lo \<le> (of_int k + 1 / 2) * (2 * c2)"
    and m: "0 \<le> k" "k < mx"
  shows "\<exists>p. calculate_pixel_position_Ask_Date w (c0, c1, c2) mx 1 = Some p \<and> py_round p = k"
proof -
  define rad where "rad = c1\<^sup>2 - 4 * c0 * c2 + 4 * c2 * w"
  define p where "p = (c1 + 2078 * c2 - sqrt rad) / (2 * c2)"
  have "0 \<le> lo\<^sup>2" by simp
  with r(2) have rad0: "\<not> rad < 0" unfolding rad_def by linarith
  have s1: "lo < sqrt rad" using r(2) unfolding rad_def by (rule real_less_rsqrt)
  have s2: "sqrt rad < hi" using r(3,4) unfolding rad_def by (intro real_less_lsqrt) simp_all
  have lo: "of_int k \<le> p"
  proof -
    have "of_int k * (2 * c2) \<le> c1 + 2078 * c2 - sqrt rad" using k(1) s2 by simp
    then show ?thesis using c2 by (simp add: p_def pos_le_divide_eq)
  qed
  have hi: "p < of_int k + 1 / 2"
  proof -
    have "c1 + 2078 * c2 - sqrt rad < (of_int k + 1 / 2) * (2 * c2)" using k(2) s1 by simp
    then show ?thesis using c2 by (simp add: p_def pos_divide_less_eq)
  qed
  have "0 \<le> real_of_int k" using m(1) by simp
  with lo have p0: "0 \<le> p" by linarith
  from m(2) have "k + 1 \<le> mx" by simp
  then have "real_of_int k + 1 \<le> real_of_int mx" by linarith
  with hi have p1: "p \<le> real_of_int mx" by linarith
  have "calculate_pixel_position_Ask_Date w (c0, c1, c2) mx 1 = Some p"
    using rad0 c2 p0 p1
    by (simp add: calculate_pixel_position_Ask_Date_def rad_def [symmetric] p_def [symmetric])
  moreover have "py_round p = k" using lo hi by (rule py_round_lower)
  ultimately show ?thesis by blast
qed

lemma miss2_position_6300:
  "\<exists>p. calculate_pixel_position_Ask_Date 6300 miss2_wavelength_coeffs 1039 1 = Some p
        \<and> py_round p = 244"
  unfolding miss2_wavelength_coeffs_def
  by (rule pixel_position_bounds [where lo = "2.89262" and hi = "2.89263"])
    (simp_all add: power2_eq_square)

lemma miss2_position_5577:
  "\<exists>p. calculate_pixel_position_Ask_Date 5577 miss2_wavelength_coeffs 1039 1 = Some p
        \<and> py_round p = 497"
  unfolding miss2_wavelength_coeffs_def
  by (rule pixel_position_bounds [where lo = "2.82299" and hi = "2.82300"])
    (simp_all add: power2_eq_square)

lemma miss2_position_4278:
  "\<exists>p. calculate_pixel_position_Ask_Date 4278 miss2_wavelength_coeffs 1039 1 = Some p
        \<and> py_round p = 968"
  unfolding miss2_wavelength_coeffs_def
  by (rule pixel_position_bounds [where lo = "2.69336" and hi = "2.69337"])
    (simp_all add: power2_eq_square)

lemma resample_300_example:
  assumes "row \<noteq> []"
  shows "resample_300 example_ndimage row = Inr (replicate 300 0)"
proof -
  have "length (zoom1 example_ndimage row (300 / real (length row)) zoom_default_order) = 300"
    using assms by (rule length_zoom1_300)
  moreover have "\<forall>x\<in>set (zoom1 example_ndimage row (300 / real (length row)) zoom_default_order).
      x = 0"
    by (auto simp: zoom1_def example_ndimage_def Let_def)
  ultimately have "zoom1 example_ndimage row (300 / real (length row)) zoom_default_order
      = replicate 300 0"
    by (metis replicate_eqI)
  with assms show ?thesis by (simp add: resample_300_nonempty)
qed

lemma shape2_medfilt2d: "snd (shape2 (medfilt2d (x # xs))) = length x"
proof -
  define F where "F = (\<lambda>i. map (\<lambda>j.
            sort [cell_or_zero (x # xs) (int i + di) (int j + dj). di \<leftarrow> [-1, 0, 1], dj \<leftarrow> [-1, 0, 1]] ! 4)
          [0..<length ((x # xs) ! i)])"
  have m: "medfilt2d (x # xs) = map F [0..<length (x # xs)]"
    unfolding medfilt2d_def F_def ..
  have "[0..<length (x # xs)] = 0 # [Suc 0..<length (x # xs)]"
    by (rule upt_conv_Cons) simp
  then have "medfilt2d (x # xs) = F 0 # map F [Suc 0..<length (x # xs)]"
    unfolding m by (simp only: list.map)
  then have "snd (shape2 (medfilt2d (x # xs))) = length (F 0)"
    by (simp add: shape2_def)
  also have "length (F 0) = length x" unfolding F_def by (simp only: length_map length_upt nth_Cons_0 diff_zero)
  finally show ?thesis .
qed

lemma length_averaged_row:
  "crop_rows (crop_columns a pr) s e = x # xs \<Longrightarrow> length (averaged_row a pr (s, e)) = length x"
  by (simp add: averaged_row_def mean_axis0_def shape2_medfilt2d)

lemma extraction_example_frame:
  assumes "0 \<le> r" "r \<le> 1038"
  shows "process_emission_line_Ask_Date example_ndimage (replicate 1040 (replicate 272 0)) r 1
           (271, 1116) = Inr (Some (replicate 300 0))"
proof -
  define e where "e = min 1040 (r + 7)"
  have n: "num_rows_to_average 1 = Inr 12"
    by (simp add: num_rows_to_average_def trunc_def)
  have w: "row_window_Ask_Date 12 1 r 1040 = (r, e)"
    using assms by (simp add: row_window_Ask_Date_def e_def)
  have av: "\<not> e - r < 2" using assms by (simp add: e_def)
  have "nat e \<le> 1040" by (simp add: e_def)
  then have le: "nat e - nat r \<le> 1040 - nat r" by (rule diff_le_mono)
  have "crop_rows (crop_columns (replicate 1040 (replicate 272 0)) (271, 1116)) r e
      = replicate (nat e - nat r) [0 :: real]"
    by (simp add: crop_rows_def crop_columns_def min_absorb1 [OF le])
  moreover have "nat e - nat r \<noteq> 0" using assms by (simp add: e_def)
  ultimately have "length (averaged_row (replicate 1040 (replicate 272 0)) (271, 1116) (r, e)) = 1"
    by (cases "nat e - nat r") (simp_all add: length_averaged_row)
  then have "averaged_row (replicate 1040 (replicate 272 0)) (271, 1116) (r, e) \<noteq> []"
    by auto
  then have "resample_300 example_ndimage
      (averaged_row (replicate 1040 (replicate 272 0)) (271, 1116) (r, e)) = Inr (replicate 300 0)"
    by (rule resample_300_example)
  then show ?thesis
    using av by (simp add: process_emission_line_Ask_Date_def n w)
qed

lemma scaled_column_zero: "scaled_column (replicate 300 0) = Inr (replicate 300 [0])"
proof -
  have "replicate 300 (0 :: real) \<noteq> []" by simp
  moreover have "set (replicate 300 (0 :: real)) = {0}" by simp
  ultimately have "scale_channel (replicate 300 0) = Inr (replicate 300 0)"
    by (simp add: scale_channel_def map_replicate_const)
  then show ?thesis by (simp add: scaled_column_def reshape_300_1_def)
qed

lemma stack_rgb_zero:
  "stack_rgb (replicate 300 [0]) (replicate 300 [0]) (replicate 300 [0]) = replicate 300 [[0, 0, 0]]"
  by (rule nth_equalityI) (simp_all add: stack_rgb_def)

lemma shape3_replicate: "0 < n \<Longrightarrow> shape3 (replicate n [p]) = [n, 1, length p]"
  by (cases n) (simp_all add: shape3_def)

lemma create_rgb_column_example:
  "create_rgb_column_Ask_Date example_ndimage (replicate 1040 (replicate 272 0)) 244 497 968 1
     (271, 1116) = Inr (Some (replicate 300 [[0, 0, 0]]))"
proof -
  have s: "shape3 (replicate 300 [[0 :: 8 word, 0, 0]]) = [300, 1, 3]"
    by (simp add: shape3_replicate)
  show ?thesis
    by (simp add: create_rgb_column_Ask_Date_def extraction_example_frame scaled_column_zero
        stack_rgb_zero s)
qed

lemma column_from_spectro_example:
  "column_from_spectro_Ask_Date example_ndimage ''MISS2-20240601-120300.png''
     (replicate 1040 (replicate 272 0)) 1 (271, 1116) miss2_wavelength_coeffs
   = Saved ''MISS2-20240601-120300_RGB.png'' (replicate 300 [[0, 0, 0]])"
proof -
  obtain p1 where p1: "calculate_pixel_position_Ask_Date 6300 miss2_wavelength_coeffs 1039 1 = Some p1"
    "py_round p1 = 244" using miss2_position_6300 by blast
  obtain p2 where p2: "calculate_pixel_position_Ask_Date 5577 miss2_wavelength_coeffs 1039 1 = Some p2"
    "py_round p2 = 497" using miss2_position_5577 by blast
  obtain p3 where p3: "calculate_pixel_position_Ask_Date 4278 miss2_wavelength_coeffs 1039 1 = Some p3"
    "py_round p3 = 968" using miss2_position_4278 by blast
  have nm: "rgb_name_Ask_Date ''MISS2-20240601-120300.png'' = ''MISS2-20240601-120300_RGB.png''"
    by (simp add: rgb_name_Ask_Date_def)
  show ?thesis
    by (simp add: column_from_spectro_Ask_Date_def p1 p2 p3 create_rgb_column_example nm)
qed

lemma read_example_frame:
  "read_png_with_metadata_Ask_Date example_ndimage example_frame 1 1
     = Inr (replicate 1040 (replicate 272 0), [(''Binning'', ''1x1'')])"
proof -
  have sh: "shape2 (to_float (replicate 1040 (replicate 272 0))) = (1040, 272)"
  proof -
    have "replicate 1040 (replicate 272 (0 :: 16 word)) = replicate 272 0 # replicate 1039 (replicate 272 0)"
      by (simp add: replicate_Suc [symmetric] del: replicate_Suc)
    then show ?thesis by (simp add: shape2_def to_float_def)
  qed
  have r: "py_round 1040 = 1040" "py_round 272 = 272" by (simp_all add: py_round_def)
  have "zoom2 example_ndimage (to_float (replicate 1040 (replicate 272 0))) (1, 1) 1
      = replicate 1040 (replicate 272 0)"
    by (simp add: zoom2_def sh r example_ndimage_def map_replicate_const)
  then show ?thesis
    by (simp add: read_png_with_metadata_Ask_Date_def example_frame_def)
qed

lemma file_example:
  "rgb_column_for_file_Ask_Date example_ndimage ''MISS2-20240601-120300.png'' example_frame
     = Saved ''MISS2-20240601-120300_RGB.png'' (replicate 300 [[0, 0, 0]])"
proof -
  have d: "device_tables_Ask_Date ''MISS2-20240601-120300.png''
      = Some (miss2_horizon_limits, miss2_wavelength_coeffs)"
    by (simp add: device_tables_Ask_Date_def)
  have i: "intact example_frame" "binning example_frame = Some (1, 1)"
    by (simp_all add: example_frame_def)
  show ?thesis
    using column_from_spectro_example
    by (simp add: rgb_column_for_file_Ask_Date_def i read_example_frame d miss2_horizon_limits_def)
qed

lemma process_emission_line_never_Some:
  "process_emission_line nd a r binY pr \<noteq> Inr (Some out)"
  by (simp add: process_emission_line_def Let_def load_global_def module_globals_Past5_def
      split: sum.split)

lemma no_real_row_example:
  "calculate_pixel_position_Ask_Date 6300 (7000, 0, 1) (int (length [[0 :: real], [0], [0]]) - 1) 1
     = None"
  by (simp add: calculate_pixel_position_Ask_Date_def)

lemma short_window_examples:
  "process_emission_line_Ask_Date example_ndimage [[0], [0], [0]] 100 1 (0, 1) = Inr None"
  "process_emission_line example_ndimage [[0], [0], [0]] 100 1 (0, 1) = Inr None"
  by (simp_all add: process_emission_line_Ask_Date_def process_emission_line_def
      num_rows_to_average_def trunc_def row_window_Ask_Date_def row_window_def)


text \<open>
  Claim C6. In the date-driven module a file is saved only when all three row
  positions (6300, 5577 and 4278 Angstrom) are found and all three extractions return a
  sample; when a row position is missing (the radicand is negative, or the position is
  out of range) the file is passed over, and when an extraction returns \<open>None\<close> (and
  none raises) \<open>create_rgb_column\<close> returns \<open>None\<close>. \<open>create_rgb_column\<close> of the
  periodic module returns \<open>None\<close> in the same case, and never returns a column.
\<close>

theorem rgb_column_all_or_nothing:
  "(rgb_column_for_file_Ask_Date nd fn f = Saved name img \<longrightarrow>
      (\<exists>binX binY sd md pr cs p1 p2 p3 red green blue.
          binning f = Some (binX, binY)
          \<and> read_png_with_metadata_Ask_Date nd f binX binY = Inr (sd, md)
          \<and> device_tables_Ask_Date fn = Some (pr, cs)
          \<and> calculate_pixel_position_Ask_Date 6300 cs (int (length sd) - 1) binY = Some p1
          \<and> calculate_pixel_position_Ask_Date 5577 cs (int (length sd) - 1) binY = Some p2
          \<and> calculate_pixel_position_Ask_Date 4278 cs (int (length sd) - 1) binY = Some p3
          \<and> process_emission_line_Ask_Date nd sd (py_round p1) binY pr = Inr (Some red)
          \<and> process_emission_line_Ask_Date nd sd (py_round p2) binY pr = Inr (Some green)
          \<and> process_emission_line_Ask_Date nd sd (py_round p3) binY pr = Inr (Some blue)))
   \<and> (calculate_pixel_position_Ask_Date 6300 cs' (int (length a) - 1) bY = None
        \<or> calculate_pixel_position_Ask_Date 5577 cs' (int (length a) - 1) bY = None
        \<or> calculate_pixel_position_Ask_Date 4278 cs' (int (length a) - 1) bY = None \<longrightarrow>
        column_from_spectro_Ask_Date nd fn a bY pr' cs' = Skipped)
   \<and> (process_emission_line_Ask_Date nd a r1 bY pr' = Inr x
        \<and> process_emission_line_Ask_Date nd a r2 bY pr' = Inr y
        \<and> process_emission_line_Ask_Date nd a r3 bY pr' = Inr z
        \<and> (x = None \<or> y = None \<or> z = None) \<longrightarrow>
        create_rgb_column_Ask_Date nd a r1 r2 r3 bY pr' = Inr None)
   \<and> (process_emission_line nd a r1 bY pr' = Inr x'
        \<and> process_emission_line nd a r2 bY pr' = Inr y'
        \<and> process_emission_line nd a r3 bY pr' = Inr z'
        \<and> (x' = None \<or> y' = None \<or> z' = None) \<longrightarrow>
        create_rgb_column nd a r1 r2 r3 bY pr' k1 k2 k3 = Inr None)
   \<and> create_rgb_column nd a r1 r2 r3 bY pr' k1 k2 k3 \<noteq> Inr (Some img')"
proof (intro conjI impI)
  assume s: "rgb_column_for_file_Ask_Date nd fn f = Saved name img"
  from rgb_column_for_file_Ask_Date_Saved [OF s] obtain binX binY sd md pr cs where
    f: "binning f = Some (binX, binY)"
      "read_png_with_metadata_Ask_Date nd f binX binY = Inr (sd, md)"
      "device_tables_Ask_Date fn = Some (pr, cs)"
    and c: "column_from_spectro_Ask_Date nd fn sd binY pr cs = Saved name img"
    by blast
  from column_from_spectro_Ask_Date_Saved [OF c] obtain p1 p2 p3 where
    p: "calculate_pixel_position_Ask_Date 6300 cs (int (length sd) - 1) binY = Some p1"
      "calculate_pixel_position_Ask_Date 5577 cs (int (length sd) - 1) binY = Some p2"
      "calculate_pixel_position_Ask_Date 4278 cs (int (length sd) - 1) binY = Some p3"
    and r: "create_rgb_column_Ask_Date nd sd (py_round p1) (py_round p2) (py_round p3) binY pr
               = Inr (Some img)"
    by blast
  from create_rgb_column_Ask_Date_Some [OF r] obtain red green blue where
    e: "process_emission_line_Ask_Date nd sd (py_round p1) binY pr = Inr (Some red)"
      "process_emission_line_Ask_Date nd sd (py_round p2) binY pr = Inr (Some green)"
      "process_emission_line_Ask_Date nd sd (py_round p3) binY pr = Inr (Some blue)"
    by blast
  from f p e show "\<exists>binX binY sd md pr cs p1 p2 p3 red green blue.
          binning f = Some (binX, binY)
          \<and> read_png_with_metadata_Ask_Date nd f binX binY = Inr (sd, md)
          \<and> device_tables_Ask_Date fn = Some (pr, cs)
          \<and> calculate_pixel_position_Ask_Date 6300 cs (int (length sd) - 1) binY = Some p1
          \<and> calculate_pixel_position_Ask_Date 5577 cs (int (length sd) - 1) binY = Some p2
          \<and> calculate_pixel_position_Ask_Date 4278 cs (int (length sd) - 1) binY = Some p3
          \<and> process_emission_line_Ask_Date nd sd (py_round p1) binY pr = Inr (Some red)
          \<and> process_emission_line_Ask_Date nd sd (py_round p2) binY pr = Inr (Some green)
          \<and> process_emission_line_Ask_Date nd sd (py_round p3) binY pr = Inr (Some blue)"
    by blast
next
  assume "calculate_pixel_position_Ask_Date 6300 cs' (int (length a) - 1) bY = None
        \<or> calculate_pixel_position_Ask_Date 5577 cs' (int (length a) - 1) bY = None
        \<or> calculate_pixel_position_Ask_Date 4278 cs' (int (length a) - 1) bY = None"
  then show "column_from_spectro_Ask_Date nd fn a bY pr' cs' = Skipped"
    by (rule column_from_spectro_Ask_Date_Skipped)
next
  assume "process_emission_line_Ask_Date nd a r1 bY pr' = Inr x
        \<and> process_emission_line_Ask_Date nd a r2 bY pr' = Inr y
        \<and> process_emission_line_Ask_Date nd a r3 bY pr' = Inr z
        \<and> (x = None \<or> y = None \<or> z = None)"
  then show "create_rgb_column_Ask_Date nd a r1 r2 r3 bY pr' = Inr None"
    using create_rgb_column_Ask_Date_None by blast
next
  assume "process_emission_line nd a r1 bY pr' = Inr x'
        \<and> process_emission_line nd a r2 bY pr' = Inr y'
        \<and> process_emission_line nd a r3 bY pr' = Inr z'
        \<and> (x' = None \<or> y' = None \<or> z' = None)"
  then show "create_rgb_column nd a r1 r2 r3 bY pr' k1 k2 k3 = Inr None"
    using create_rgb_column_None by blast
next
  show "create_rgb_column nd a r1 r2 r3 bY pr' k1 k2 k3 \<noteq> Inr (Some img')"
    using create_rgb_column_Some process_emission_line_never_Some by blast
qed


theorem rgb_column_all_or_nothing_witness:
  "rgb_column_for_file_Ask_Date example_ndimage ''MISS2-20240601-120300.png'' example_frame
     = Saved ''MISS2-20240601-120300_RGB.png'' (replicate 300 [[0, 0, 0]])
   \<and> (\<exists>p1 p2 p3 red green blue.
         calculate_pixel_position_Ask_Date 6300 miss2_wavelength_coeffs 1039 1 = Some p1
         \<and> calculate_pixel_position_Ask_Date 5577 miss2_wavelength_coeffs 1039 1 = Some p2
         \<and> calculate_pixel_position_Ask_Date 4278 miss2_wavelength_coeffs 1039 1 = Some p3
         \<and> process_emission_line_Ask_Date example_ndimage (replicate 1040 (replicate 272 0))
              (py_round p1) 1 (271, 1116) = Inr (Some red)
         \<and> process_emission_line_Ask_Date example_ndimage (replicate 1040 (replicate 272 0))
              (py_round p2) 1 (271, 1116) = Inr (Some green)
         \<and> process_emission_line_Ask_Date example_ndimage (replicate 1040 (replicate 272 0))
              (py_round p3) 1 (271, 1116) = Inr (Some blue))
   \<and> calculate_pixel_position_Ask_Date 6300 (7000, 0, 1) (int (length [[0 :: real], [0], [0]]) - 1) 1
        = None
   \<and> column_from_spectro_Ask_Date example_ndimage ''MISS2-20240601-120300.png''
        [[0], [0], [0]] 1 (0, 1) (7000, 0, 1) = Skipped
   \<and> process_emission_line_Ask_Date example_ndimage [[0], [0], [0]] 100 1 (0, 1) = Inr None
   \<and> create_rgb_column_Ask_Date example_ndimage [[0], [0], [0]] 100 100 100 1 (0, 1) = Inr None
   \<and> process_emission_line example_ndimage [[0], [0], [0]] 100 1 (0, 1) = Inr None
   \<and> create_rgb_column example_ndimage [[0], [0], [0]] 100 100 100 1 (0, 1) 1 1 1 = Inr None"
proof -
  note T = rgb_column_all_or_nothing [where nd = example_ndimage
      and fn = "''MISS2-20240601-120300.png''" and f = example_frame
      and name = "''MISS2-20240601-120300_RGB.png''" and img = "replicate 300 [[0, 0, 0]]"
      and cs' = "(7000, 0, 1)" and a = "[[0], [0], [0]]" and bY = 1 and pr' = "(0, 1)"
      and ?r1.0 = 100 and ?r2.0 = 100 and ?r3.0 = 100 and x = None and y = None and z = None
      and x' = None and y' = None and z' = None and ?k1.0 = 1 and ?k2.0 = 1 and ?k3.0 = 1]
  note T1 = T [THEN conjunct1]
  note T2 = T [THEN conjunct2, THEN conjunct1]
  note T3 = T [THEN conjunct2, THEN conjunct2, THEN conjunct1]
  note T4 = T [THEN conjunct2, THEN conjunct2, THEN conjunct2, THEN conjunct1]
  from T1 [THEN mp, OF file_example] obtain binX binY sd md pr cs p1 p2 p3 red green blue where
    f: "binning example_frame = Some (binX, binY)"
      "read_png_with_metadata_Ask_Date example_ndimage example_frame binX binY = Inr (sd, md)"
      "device_tables_Ask_Date ''MISS2-20240601-120300.png'' = Some (pr, cs)"
    and p: "calculate_pixel_position_Ask_Date 6300 cs (int (length sd) - 1) binY = Some p1"
      "calculate_pixel_position_Ask_Date 5577 cs (int (length sd) - 1) binY = Some p2"
      "calculate_pixel_position_Ask_Date 4278 cs (int (length sd) - 1) binY = Some p3"
    and e: "process_emission_line_Ask_Date example_ndimage sd (py_round p1) binY pr = Inr (Some red)"
      "process_emission_line_Ask_Date example_ndimage sd (py_round p2) binY pr = Inr (Some green)"
      "process_emission_line_Ask_Date example_ndimage sd (py_round p3) binY pr = Inr (Some blue)"
    by blast
  from f(1) have b: "binX = 1" "binY = 1" by (simp_all add: example_frame_def)
  from f(2) have sd: "sd = replicate 1040 (replicate 272 0)"
    unfolding b by (simp add: read_example_frame)
  from f(3) have d: "pr = (271, 1116)" "cs = miss2_wavelength_coeffs"
    by (simp_all add: device_tables_Ask_Date_def miss2_horizon_limits_def)
  have c1: "\<exists>p1 p2 p3 red green blue.
         calculate_pixel_position_Ask_Date 6300 miss2_wavelength_coeffs 1039 1 = Some p1
         \<and> calculate_pixel_position_Ask_Date 5577 miss2_wavelength_coeffs 1039 1 = Some p2
         \<and> calculate_pixel_position_Ask_Date 4278 miss2_wavelength_coeffs 1039 1 = Some p3
         \<and> process_emission_line_Ask_Date example_ndimage (replicate 1040 (replicate 272 0))
              (py_round p1) 1 (271, 1116) = Inr (Some red)
         \<and> process_emission_line_Ask_Date example_ndimage (replicate 1040 (replicate 272 0))
              (py_round p2) 1 (271, 1116) = Inr (Some green)
         \<and> process_emission_line_Ask_Date example_ndimage (replicate 1040 (replicate 272 0))
              (py_round p3) 1 (271, 1116) = Inr (Some blue)"
    using p e unfolding b sd d by auto
  from T2 no_real_row_example
  have c2: "column_from_spectro_Ask_Date example_ndimage ''MISS2-20240601-120300.png''
        [[0], [0], [0]] 1 (0, 1) (7000, 0, 1) = Skipped" by blast
  from T3 short_window_examples(1)
  have c3: "create_rgb_column_Ask_Date example_ndimage [[0], [0], [0]] 100 100 100 1 (0, 1) = Inr None"
    by blast
  from T4 short_window_examples(2)
  have c4: "create_rgb_column example_ndimage [[0], [0], [0]] 100 100 100 1 (0, 1) 1 1 1 = Inr None"
    by blast
  from file_example c1 no_real_row_example c2 short_window_examples c3 c4
  show ?thesis by (intro conjI)
qed

subsection \<open>Calibration: rows to wavelengths and back\<close>
















subsection \<open>Keogram: one column per minute\<close>

lemma shape3_replicate_rows:
  assumes "0 < h" "0 < w"
  shows "shape3 (replicate h (replicate w p)) = [h, w, length p]"
proof -
  from assms obtain h' w' where "h = Suc h'" "w = Suc w'"
    by (cases h; cases w) simp_all
  then show ?thesis by (simp add: shape3_def)
qed

lemma keogram_ok_initialise: "keogram_ok initialise_keogram"
proof -
  have "shape3 (replicate num_pixels_y (replicate num_minutes [255, 255, 255 :: 8 word]))
          = [num_pixels_y, num_minutes, 3]"
    by (simp add: shape3_replicate_rows num_pixels_y_def num_minutes_def)
  then show ?thesis
    by (simp add: keogram_ok_def initialise_keogram_def list_all_iff)
qed

lemma column_initialise:
  "m < num_minutes \<Longrightarrow> column initialise_keogram m = replicate num_pixels_y [255, 255, 255]"
  by (simp add: column_def initialise_keogram_def)

lemma add_column_usable:
  "add_column dir d K m =
     (case usable_column dir d m of
        None \<Rightarrow> K
      | Some a \<Rightarrow> (case set_column K m a of Inl e \<Rightarrow> K | Inr k \<Rightarrow> k))"
  by (simp add: add_column_def usable_column_def np_shape_def
      split: option.splits ndarray8.splits sum.splits)

lemma set_column_ok:
  assumes "keogram_ok K" "shape3 a = [num_pixels_y, 1, 3]"
  shows "set_column K m a = Inr (map (\<lambda>(row, r). row[m := r ! 0]) (zip K a))"
  using assms by (simp add: set_column_def keogram_ok_def)

lemma shape3_lengths:
  assumes "shape3 a = [h, w, c]" "0 < h"
  shows "length a = h \<and> length (hd a) = w"
  using assms by (cases a) (simp_all add: shape3_def)

lemma keogram_ok_put:
  assumes K: "keogram_ok K" and a: "shape3 a = [num_pixels_y, 1, 3]"
  shows "keogram_ok (map (\<lambda>(row, r). row[m := r ! 0]) (zip K a))"
proof -
  from K have lK: "length K = num_pixels_y" and rows: "list_all (\<lambda>row. length row = num_minutes) K"
    and sK: "shape3 K = [num_pixels_y, num_minutes, 3]"
    by (simp_all add: keogram_ok_def)
  from a have la: "length a = num_pixels_y" by (simp add: shape3_def)
  obtain k0 K' where Kc: "K = k0 # K'" using lK by (cases K) (simp_all add: num_pixels_y_def)
  obtain a0 a' where ac: "a = a0 # a'" using la by (cases a) (simp_all add: num_pixels_y_def)
  from a ac have a0: "length a0 = 1" by (simp add: shape3_def)
  then obtain p where a0c: "a0 = [p]" by (cases a0) simp_all
  from a ac a0c have p: "length p = 3" by (simp add: shape3_def)
  from sK Kc have k0: "length k0 = num_minutes" by (simp add: shape3_def)
  then obtain q k0' where k0c: "k0 = q # k0'" by (cases k0) (simp_all add: num_minutes_def)
  from sK Kc k0c have q: "length q = 3" by (simp add: shape3_def)
  have 1: "length (map (\<lambda>(row, r). row[m := r ! 0]) (zip K a)) = num_pixels_y"
    using lK la by simp
  have 2: "list_all (\<lambda>row. length row = num_minutes) (map (\<lambda>(row, r). row[m := r ! 0]) (zip K a))"
    using rows by (auto simp add: list_all_iff dest: set_zip_leftD)
  have 3: "shape3 (map (\<lambda>(row, r). row[m := r ! 0]) (zip K a)) = [num_pixels_y, num_minutes, 3]"
    using lK la k0 p q unfolding Kc ac a0c k0c
    by (cases m) (simp_all add: shape3_def)
  from 1 2 3 show ?thesis unfolding keogram_ok_def by (intro conjI)
qed

lemma column_put:
  assumes K: "keogram_ok K" and a: "shape3 a = [num_pixels_y, 1, 3]" and m: "m < num_minutes"
  shows "column (map (\<lambda>(row, r). row[m := r ! 0]) (zip K a)) m' =
           (if m' = m then map (\<lambda>r. r ! 0) a else column K m')"
proof -
  from K have lK: "length K = num_pixels_y" and rows: "list_all (\<lambda>row. length row = num_minutes) K"
    by (simp_all add: keogram_ok_def)
  from a have la: "length a = num_pixels_y" by (simp add: shape3_def)
  have r: "\<And>i. i < num_pixels_y \<Longrightarrow> length (K ! i) = num_minutes"
    using rows lK by (simp add: list_all_length)
  show ?thesis
  proof (cases "m' = m")
    case True
    show ?thesis unfolding column_def
      by (rule nth_equalityI) (simp_all add: lK la True r m)
  next
    case False
    then have ne: "m \<noteq> m'" by simp
    show ?thesis unfolding column_def
      by (rule nth_equalityI) (simp_all add: lK la False ne)
  qed
qed

lemma add_column_ok:
  assumes "keogram_ok K"
  shows "keogram_ok (add_column dir d K m)"
proof (cases "usable_column dir d m")
  case None
  then show ?thesis using assms by (simp add: add_column_usable)
next
  case (Some a)
  then have s: "shape3 a = [num_pixels_y, 1, 3]"
    by (simp add: usable_column_def split: option.splits if_splits ndarray8.splits)
  show ?thesis using Some keogram_ok_put [OF assms s, of m]
    by (simp add: add_column_usable set_column_ok [OF assms s])
qed

lemma add_column_column:
  assumes K: "keogram_ok K" and m: "m < num_minutes"
  shows "column (add_column dir d K m) m' =
           (if m' = m then (case usable_column dir d m of
                              None \<Rightarrow> column K m
                            | Some a \<Rightarrow> map (\<lambda>r. r ! 0) a)
            else column K m')"
proof (cases "usable_column dir d m")
  case None
  then show ?thesis by (simp add: add_column_usable)
next
  case (Some a)
  then have s: "shape3 a = [num_pixels_y, 1, 3]"
    by (simp add: usable_column_def split: option.splits if_splits ndarray8.splits)
  show ?thesis using Some column_put [OF K s m, of m']
    by (simp add: add_column_usable set_column_ok [OF K s])
qed

lemma fold_columns:
  assumes K: "keogram_ok K"
  shows "n \<le> num_minutes \<Longrightarrow>
         keogram_ok (foldl (add_column dir d) K [0..<n]) \<and>
         (\<forall>m. column (foldl (add_column dir d) K [0..<n]) m =
           (if m < n then (case usable_column dir d m of
                              None \<Rightarrow> column K m
                            | Some a \<Rightarrow> map (\<lambda>r. r ! 0) a)
            else column K m))"
proof (induction n)
  case 0
  then show ?case using K by simp
next
  case (Suc n)
  then have n: "n < num_minutes" and le: "n \<le> num_minutes" by simp_all
  define K' where "K' = foldl (add_column dir d) K [0..<n]"
  note IH = Suc.IH [OF le, folded K'_def]
  have ok: "keogram_ok K'" using IH by (rule conjunct1)
  have col: "\<And>m. column K' m =
           (if m < n then (case usable_column dir d m of
                              None \<Rightarrow> column K m
                            | Some a \<Rightarrow> map (\<lambda>r. r ! 0) a)
            else column K m)" using IH by simp
  have step: "foldl (add_column dir d) K [0..<Suc n] = add_column dir d K' n"
    by (simp add: K'_def)
  have 1: "keogram_ok (add_column dir d K' n)" using ok by (rule add_column_ok)
  have 2: "\<And>m. column (add_column dir d K' n) m =
           (if m < Suc n then (case usable_column dir d m of
                              None \<Rightarrow> column K m
                            | Some a \<Rightarrow> map (\<lambda>r. r ! 0) a)
            else column K m)"
    unfolding add_column_column [OF ok n] col
    by (simp add: less_Suc_eq split: option.splits)
  show ?case unfolding step using 1 2 by simp
qed

lemma example_rgb_filenames:
  "rgb_filename ''20240601'' 2 = ''MISS2-20240601-000200_RGB.png''"
  "rgb_filename ''20240601'' 3 = ''MISS2-20240601-000300_RGB.png''"
  "rgb_filename ''20240601'' 4 = ''MISS2-20240601-000400_RGB.png''"
  "rgb_filename ''20240601'' 5 = ''MISS2-20240601-000500_RGB.png''"
  "rgb_filename ''20240601'' 7 = ''MISS2-20240601-000700_RGB.png''"
  by (simp_all add: rgb_filename_def spectrograph_def fmt_0d_def)

lemma shape3_example_column: "shape3 example_column = [num_pixels_y, 1, 3]"
  by (simp add: example_column_def shape3_replicate num_pixels_y_def)

lemma example_usable:
  "usable_column example_rgb_dir ''20240601'' 2 = Some example_column"
  "usable_column example_rgb_dir ''20240601'' 3 = None"
  "usable_column example_rgb_dir ''20240601'' 4 = None"
  "usable_column example_rgb_dir ''20240601'' 5 = Some example_column"
  "usable_column example_rgb_dir ''20240601'' 7 = None"
  unfolding usable_column_def example_rgb_filenames
  by (simp_all add: example_rgb_dir_def shape3_example_column)

lemma example_column_values: "map (\<lambda>r. r ! 0) example_column = replicate num_pixels_y [10, 20, 30]"
  by (simp add: example_column_def num_pixels_y_def)

lemma usable_column_iff:
  "(usable_column dir d m = Some a) =
     (\<exists>f. dir (rgb_filename d m) = Some f \<and> verifies f \<and> decoded f = Some (Colour a)
          \<and> np_shape (Colour a) = [num_pixels_y, 1, 3])"
  by (auto simp add: usable_column_def np_shape_def split: option.splits ndarray8.splits)

lemma np_shape_gray: "np_shape (Gray g) \<noteq> [h, w, c]"
  by (simp add: np_shape_def)

text \<open>
  Claim C4 (keogram column isolation). For a raster of shape (300, 1440, 3) and an
  existing day folder, after the pass column \<open>m\<close> holds the column of the file of
  minute \<open>m\<close> when the pass visits \<open>m\<close> and that file exists, passes the integrity
  check, decodes and has shape (300, 1, 3), and holds what it held before otherwise. The
  date-driven pass visits all 1440 minutes, the periodic pass the minutes below the number
  of minutes elapsed since 00:00 UTC. One insertion changes no other column, the pass
  always returns a raster of the same shape (no failure ends it), a missing day folder
  leaves the raster as it is, and the columns of the initial raster are white.
\<close>

theorem keogram_column_isolation:
  "(keogram_ok K \<longrightarrow>
      keogram_ok (add_rgb_columns_Ask_Date (Some dir) d K) \<and>
      (\<forall>m<num_minutes.
         column (add_rgb_columns_Ask_Date (Some dir) d K) m =
           (case usable_column dir d m of
              None \<Rightarrow> column K m
            | Some a \<Rightarrow> map (\<lambda>r. r ! 0) a)))
   \<and> (keogram_ok K \<and> n \<le> num_minutes \<longrightarrow>
      keogram_ok (add_rgb_columns (Some dir) d K n) \<and>
      (\<forall>m<num_minutes.
         column (add_rgb_columns (Some dir) d K n) m =
           (if m < n then (case usable_column dir d m of
                             None \<Rightarrow> column K m
                           | Some a \<Rightarrow> map (\<lambda>r. r ! 0) a)
            else column K m)))
   \<and> (keogram_ok K \<and> m < num_minutes \<longrightarrow>
      (\<forall>m'. m' \<noteq> m \<longrightarrow> column (add_column dir d K m) m' = column K m'))
   \<and> (usable_column dir d m = Some a) =
       (\<exists>f. dir (rgb_filename d m) = Some f \<and> verifies f \<and> decoded f = Some (Colour a)
            \<and> np_shape (Colour a) = [num_pixels_y, 1, 3])
   \<and> (\<forall>f g. decoded f = Some (Gray g) \<longrightarrow> np_shape (Gray g) \<noteq> [num_pixels_y, 1, 3])
   \<and> add_rgb_columns_Ask_Date None d K = K
   \<and> add_rgb_columns None d K n = K
   \<and> keogram_ok initialise_keogram
   \<and> (\<forall>m<num_minutes. column initialise_keogram m = replicate num_pixels_y [255, 255, 255])"
proof -
  have A: "keogram_ok K \<longrightarrow>
      keogram_ok (add_rgb_columns_Ask_Date (Some dir) d K) \<and>
      (\<forall>m<num_minutes.
         column (add_rgb_columns_Ask_Date (Some dir) d K) m =
           (case usable_column dir d m of
              None \<Rightarrow> column K m
            | Some a \<Rightarrow> map (\<lambda>r. r ! 0) a))"
  proof
    assume K: "keogram_ok K"
    from fold_columns [OF K, of num_minutes dir d]
    show "keogram_ok (add_rgb_columns_Ask_Date (Some dir) d K) \<and>
      (\<forall>m<num_minutes.
         column (add_rgb_columns_Ask_Date (Some dir) d K) m =
           (case usable_column dir d m of
              None \<Rightarrow> column K m
            | Some a \<Rightarrow> map (\<lambda>r. r ! 0) a))"
      by (simp add: add_rgb_columns_Ask_Date_def)
  qed
  have B: "keogram_ok K \<and> n \<le> num_minutes \<longrightarrow>
      keogram_ok (add_rgb_columns (Some dir) d K n) \<and>
      (\<forall>m<num_minutes.
         column (add_rgb_columns (Some dir) d K n) m =
           (if m < n then (case usable_column dir d m of
                             None \<Rightarrow> column K m
                           | Some a \<Rightarrow> map (\<lambda>r. r ! 0) a)
            else column K m))"
  proof
    assume h: "keogram_ok K \<and> n \<le> num_minutes"
    then have K: "keogram_ok K" and n: "n \<le> num_minutes" by simp_all
    from fold_columns [OF K n, of dir d]
    show "keogram_ok (add_rgb_columns (Some dir) d K n) \<and>
      (\<forall>m<num_minutes.
         column (add_rgb_columns (Some dir) d K n) m =
           (if m < n then (case usable_column dir d m of
                             None \<Rightarrow> column K m
                           | Some a \<Rightarrow> map (\<lambda>r. r ! 0) a)
            else column K m))"
      by (simp add: add_rgb_columns_def)
  qed
  have C: "keogram_ok K \<and> m < num_minutes \<longrightarrow>
      (\<forall>m'. m' \<noteq> m \<longrightarrow> column (add_column dir d K m) m' = column K m')"
    by (simp add: add_column_column)
  have D: "(usable_column dir d m = Some a) =
       (\<exists>f. dir (rgb_filename d m) = Some f \<and> verifies f \<and> decoded f = Some (Colour a)
            \<and> np_shape (Colour a) = [num_pixels_y, 1, 3])"
    by (rule usable_column_iff)
  have E: "\<forall>f g. decoded f = Some (Gray g) \<longrightarrow> np_shape (Gray g) \<noteq> [num_pixels_y, 1, 3]"
    by (simp add: np_shape_gray)
  have F: "add_rgb_columns_Ask_Date None d K = K"
    by (simp add: add_rgb_columns_Ask_Date_def)
  have G: "add_rgb_columns None d K n = K"
    by (simp add: add_rgb_columns_def)
  have H: "keogram_ok initialise_keogram"
    by (rule keogram_ok_initialise)
  have I: "\<forall>m<num_minutes. column initialise_keogram m = replicate num_pixels_y [255, 255, 255]"
    by (simp add: column_initialise)
  from A B C D E F G H I show ?thesis by (intro conjI)
qed

theorem keogram_column_isolation_witness:
  "keogram_ok initialise_keogram
   \<and> column (add_rgb_columns_Ask_Date (Some example_rgb_dir) ''20240601'' initialise_keogram) 2
       = replicate 300 [10, 20, 30]
   \<and> column (add_rgb_columns_Ask_Date (Some example_rgb_dir) ''20240601'' initialise_keogram) 3
       = replicate 300 [255, 255, 255]
   \<and> column (add_rgb_columns_Ask_Date (Some example_rgb_dir) ''20240601'' initialise_keogram) 4
       = replicate 300 [255, 255, 255]
   \<and> column (add_rgb_columns_Ask_Date (Some example_rgb_dir) ''20240601'' initialise_keogram) 7
       = replicate 300 [255, 255, 255]
   \<and> column (add_rgb_columns (Some example_rgb_dir) ''20240601'' initialise_keogram 3) 2
       = replicate 300 [10, 20, 30]
   \<and> column (add_column example_rgb_dir ''20240601'' initialise_keogram 2) 3
       = replicate 300 [255, 255, 255]"
proof -
  note T = keogram_column_isolation [where K = initialise_keogram and dir = example_rgb_dir
      and d = "''20240601''" and n = 3 and m = 2]
  have ok: "keogram_ok initialise_keogram"
    by (rule T [THEN conjunct2, THEN conjunct2, THEN conjunct2, THEN conjunct2, THEN conjunct2,
          THEN conjunct2, THEN conjunct2, THEN conjunct1])
  have white: "\<forall>m<num_minutes. column initialise_keogram m = replicate num_pixels_y [255, 255, 255]"
    by (rule T [THEN conjunct2, THEN conjunct2, THEN conjunct2, THEN conjunct2, THEN conjunct2,
          THEN conjunct2, THEN conjunct2, THEN conjunct2])
  have w: "column initialise_keogram 2 = replicate 300 [255, 255, 255]"
    "column initialise_keogram 3 = replicate 300 [255, 255, 255]"
    "column initialise_keogram 4 = replicate 300 [255, 255, 255]"
    "column initialise_keogram 7 = replicate 300 [255, 255, 255]"
    using white by (simp_all add: num_minutes_def num_pixels_y_def)
  have A: "\<forall>m<num_minutes.
         column (add_rgb_columns_Ask_Date (Some example_rgb_dir) ''20240601'' initialise_keogram) m =
           (case usable_column example_rgb_dir ''20240601'' m of
              None \<Rightarrow> column initialise_keogram m
            | Some a \<Rightarrow> map (\<lambda>r. r ! 0) a)"
    by (rule T [THEN conjunct1, THEN mp, OF ok, THEN conjunct2])
  have lt: "2 < num_minutes" "3 < num_minutes" "4 < num_minutes" "7 < num_minutes"
    "(3::nat) \<le> num_minutes"
    by (simp_all add: num_minutes_def)
  have a2: "column (add_rgb_columns_Ask_Date (Some example_rgb_dir) ''20240601'' initialise_keogram) 2
       = replicate 300 [10, 20, 30]"
    using A [rule_format, OF lt(1)]
    by (simp add: example_usable example_column_values num_pixels_y_def)
  have a3: "column (add_rgb_columns_Ask_Date (Some example_rgb_dir) ''20240601'' initialise_keogram) 3
       = replicate 300 [255, 255, 255]"
    using A [rule_format, OF lt(2)] by (simp add: example_usable w)
  have a4: "column (add_rgb_columns_Ask_Date (Some example_rgb_dir) ''20240601'' initialise_keogram) 4
       = replicate 300 [255, 255, 255]"
    using A [rule_format, OF lt(3)] by (simp add: example_usable w)
  have a7: "column (add_rgb_columns_Ask_Date (Some example_rgb_dir) ''20240601'' initialise_keogram) 7
       = replicate 300 [255, 255, 255]"
    using A [rule_format, OF lt(4)] by (simp add: example_usable w)
  have B: "\<forall>m<num_minutes.
         column (add_rgb_columns (Some example_rgb_dir) ''20240601'' initialise_keogram 3) m =
           (if m < 3 then (case usable_column example_rgb_dir ''20240601'' m of
                             None \<Rightarrow> column initialise_keogram m
                           | Some a \<Rightarrow> map (\<lambda>r. r ! 0) a)
            else column initialise_keogram m)"
    by (rule T [THEN conjunct2, THEN conjunct1, THEN mp, OF conjI, OF ok lt(5), THEN conjunct2])
  have b2: "column (add_rgb_columns (Some example_rgb_dir) ''20240601'' initialise_keogram 3) 2
       = replicate 300 [10, 20, 30]"
    using B [rule_format, OF lt(1)]
    by (simp add: example_usable example_column_values num_pixels_y_def)
  have C: "\<forall>m'. m' \<noteq> 2 \<longrightarrow>
      column (add_column example_rgb_dir ''20240601'' initialise_keogram 2) m' =
        column initialise_keogram m'"
    by (rule T [THEN conjunct2, THEN conjunct2, THEN conjunct1, THEN mp, OF conjI, OF ok lt(1)])
  have c3: "column (add_column example_rgb_dir ''20240601'' initialise_keogram 2) 3
       = replicate 300 [255, 255, 255]"
    using C [rule_format, of 3] by (simp add: w)
  from ok a2 a3 a4 a7 b2 c3 show ?thesis by (intro conjI)
qed

text \<open>
  The periodic pass reads the column files of the minutes below the number of minutes
  elapsed: at 00:03 UTC the good column file of 00:05 is in the folder, and column 5 stays
  white.
\<close>

theorem periodic_pass_visits_elapsed_minutes_only:
  "usable_column example_rgb_dir ''20240601'' 5 = Some example_column
   \<and> map (\<lambda>r. r ! 0) example_column = replicate 300 [10, 20, 30]
   \<and> column (add_rgb_columns (Some example_rgb_dir) ''20240601'' initialise_keogram 3) 5
       = replicate 300 [255, 255, 255]"
proof -
  have n: "(3::nat) \<le> num_minutes" by (simp add: num_minutes_def)
  have "column (add_rgb_columns (Some example_rgb_dir) ''20240601'' initialise_keogram 3) 5
          = column initialise_keogram 5"
    using fold_columns [OF keogram_ok_initialise n, of example_rgb_dir "''20240601''"]
    by (simp add: add_rgb_columns_def)
  also have "\<dots> = replicate 300 [255, 255, 255]"
    by (simp add: column_initialise num_minutes_def num_pixels_y_def)
  finally have c: "column (add_rgb_columns (Some example_rgb_dir) ''20240601'' initialise_keogram 3) 5
       = replicate 300 [255, 255, 255]" .
  have v: "map (\<lambda>r. r ! 0) example_column = replicate 300 [10, 20, 30]"
    by (simp add: example_column_values num_pixels_y_def)
  from example_usable(4) v c show ?thesis by (intro conjI)
qed

end
